theory Spec2Isabelle
  imports Complex_Main
begin

section \<open>Tensors on a lattice\<close>

text \<open>
  A tensor of shape \<open>[Q, X, Y, ...]\<close> is a list over the leading axis whose entries are
  fields on the grid; a field maps a lattice point to a value. Every operation modelled
  below acts on the leading axis and pointwise on the grid.
\<close>

type_synonym 'c field = "'c \<Rightarrow> real"

type_synonym 'c tensor = "'c field list"

text \<open>
  \<open>lattice.mv(A, f)\<close>, the matrix-vector product over the leading axis
  (\<open>einsum("ij,j->i")\<close>); the lattice class is not part of the sources at hand, the
  product is written out. The entries are real numbers: this is the product in exact
  arithmetic, for an \<open>f\<close> with as many entries as the matrix has columns (the einsum
  takes no other).
\<close>

definition mv :: "real list list \<Rightarrow> 'c tensor \<Rightarrow> 'c tensor" where
  "mv A f = map (\<lambda>row. (\<lambda>x. sum_list (map2 (\<lambda>a g. a * g x) row f))) A"

text \<open>The product of two stored arrays, \<open>A @ B\<close>, and the identity array.\<close>

definition column :: "real list list \<Rightarrow> nat \<Rightarrow> real list" where
  "column B j = map (\<lambda>r. r ! j) B"

definition matmul :: "real list list \<Rightarrow> real list list \<Rightarrow> real list list" where
  "matmul A B =
     map (\<lambda>row. map (\<lambda>j. sum_list (map2 (*) row (column B j))) [0..<length (hd B)]) A"

definition eye :: "nat \<Rightarrow> real list list" where
  "eye n = map (\<lambda>i. map (\<lambda>j. if i = j then 1 else 0) [0..<n]) [0..<n]"

section \<open>Moment transforms (lettuce/moments.py)\<close>

subsection \<open>D1Q3Transform\<close>

definition D1Q3Transform_matrix :: "real list list" where
  "D1Q3Transform_matrix =
    [[1, 1, 1],
     [0, 1, -1],
     [0, 1, 1]]"

definition D1Q3Transform_inverse :: "real list list" where
  "D1Q3Transform_inverse =
    [[1, 0, -1],
     [0, 1 / 2, 1 / 2],
     [0, -1 / 2, 1 / 2]]"

definition D1Q3Transform_names :: "string list" where
  "D1Q3Transform_names = [''rho'', ''j'', ''e'']"

definition D1Q3Transform_transform :: "'c tensor \<Rightarrow> 'c tensor" where
  "D1Q3Transform_transform f = mv D1Q3Transform_matrix f"

definition D1Q3Transform_inverse_transform :: "'c tensor \<Rightarrow> 'c tensor" where
  "D1Q3Transform_inverse_transform m = mv D1Q3Transform_inverse m"

subsection \<open>D2Q9Dellar\<close>

definition D2Q9Dellar_matrix :: "real list list" where
  "D2Q9Dellar_matrix =
    [[1, 1, 1, 1, 1, 1, 1, 1, 1],
     [0, 1, 0, -1, 0, 1, -1, -1, 1],
     [0, 0, 1, 0, -1, 1, 1, -1, -1],
     [-3 / 2, 3, -3 / 2, 3, -3 / 2, 3, 3, 3, 3],
     [0, 0, 0, 0, 0, 9, -9, 9, -9],
     [-3 / 2, -3 / 2, 3, -3 / 2, 3, 3, 3, 3, 3],
     [1, -2, -2, -2, -2, 4, 4, 4, 4],
     [0, -2, 0, 2, 0, 4, -4, -4, 4],
     [0, 0, -2, 0, 2, 4, 4, -4, -4]]"

definition D2Q9Dellar_inverse :: "real list list" where
  "D2Q9Dellar_inverse =
    [[4 / 9, 0, 0, -4 / 27, 0, -4 / 27, 1 / 9, 0, 0],
     [1 / 9, 1 / 3, 0, 2 / 27, 0, -1 / 27, -1 / 18, -1 / 12, 0],
     [1 / 9, 0, 1 / 3, -1 / 27, 0, 2 / 27, -1 / 18, 0, -1 / 12],
     [1 / 9, -1 / 3, 0, 2 / 27, 0, -1 / 27, -1 / 18, 1 / 12, 0],
     [1 / 9, 0, -1 / 3, -1 / 27, 0, 2 / 27, -1 / 18, 0, 1 / 12],
     [1 / 36, 1 / 12, 1 / 12, 1 / 54, 1 / 36, 1 / 54, 1 / 36, 1 / 24, 1 / 24],
     [1 / 36, -1 / 12, 1 / 12, 1 / 54, -1 / 36, 1 / 54, 1 / 36, -1 / 24, 1 / 24],
     [1 / 36, -1 / 12, -1 / 12, 1 / 54, 1 / 36, 1 / 54, 1 / 36, -1 / 24, -1 / 24],
     [1 / 36, 1 / 12, -1 / 12, 1 / 54, -1 / 36, 1 / 54, 1 / 36, 1 / 24, -1 / 24]]"

definition D2Q9Dellar_names :: "string list" where
  "D2Q9Dellar_names =
     [''rho'', ''jx'', ''jy'', ''Pi_xx'', ''Pi_xy'', ''PI_yy'', ''N'', ''Jx'', ''Jy'']"

definition D2Q9Dellar_transform :: "'c tensor \<Rightarrow> 'c tensor" where
  "D2Q9Dellar_transform f = mv D2Q9Dellar_matrix f"

definition D2Q9Dellar_inverse_transform :: "'c tensor \<Rightarrow> 'c tensor" where
  "D2Q9Dellar_inverse_transform m = mv D2Q9Dellar_inverse m"

subsection \<open>D2Q9Lallemand\<close>

definition D2Q9Lallemand_matrix :: "real list list" where
  "D2Q9Lallemand_matrix =
    [[1, 1, 1, 1, 1, 1, 1, 1, 1],
     [0, 1, 0, -1, 0, 1, -1, -1, 1],
     [0, 0, 1, 0, -1, 1, 1, -1, -1],
     [0, 1, -1, 1, -1, 0, 0, 0, 0],
     [0, 0, 0, 0, 0, 1, -1, 1, -1],
     [-4, -1, -1, -1, -1, 2, 2, 2, 2],
     [0, -2, 0, 2, 0, 1, -1, -1, 1],
     [0, 0, -2, 0, 2, 1, 1, -1, -1],
     [4, -2, -2, -2, -2, 1, 1, 1, 1]]"

definition D2Q9Lallemand_inverse :: "real list list" where
  "D2Q9Lallemand_inverse =
    [[1 / 9, 0, 0, 0, 0, -1 / 9, 0, 0, 1 / 9],
     [1 / 9, 1 / 6, 0, 1 / 4, 0, -1 / 36, -1 / 6, 0, -1 / 18],
     [1 / 9, 0, 1 / 6, -1 / 4, 0, -1 / 36, 0, -1 / 6, -1 / 18],
     [1 / 9, -1 / 6, 0, 1 / 4, 0, -1 / 36, 1 / 6, 0, -1 / 18],
     [1 / 9, 0, -1 / 6, -1 / 4, 0, -1 / 36, 0, 1 / 6, -1 / 18],
     [1 / 9, 1 / 6, 1 / 6, 0, 1 / 4, 1 / 18, 1 / 12, 1 / 12, 1 / 36],
     [1 / 9, -1 / 6, 1 / 6, 0, -1 / 4, 1 / 18, -1 / 12, 1 / 12, 1 / 36],
     [1 / 9, -1 / 6, -1 / 6, 0, 1 / 4, 1 / 18, -1 / 12, -1 / 12, 1 / 36],
     [1 / 9, 1 / 6, -1 / 6, 0, -1 / 4, 1 / 18, 1 / 12, -1 / 12, 1 / 36]]"

definition D2Q9Lallemand_names :: "string list" where
  "D2Q9Lallemand_names =
     [''rho'', ''jx'', ''jy'', ''pxx'', ''pxy'', ''e'', ''qx'', ''qy'', ''eps'']"

definition D2Q9Lallemand_transform :: "'c tensor \<Rightarrow> 'c tensor" where
  "D2Q9Lallemand_transform f = mv D2Q9Lallemand_matrix f"

definition D2Q9Lallemand_inverse_transform :: "'c tensor \<Rightarrow> 'c tensor" where
  "D2Q9Lallemand_inverse_transform m = mv D2Q9Lallemand_inverse m"

subsection \<open>The product on float64 tensors\<close>

text \<open>
  On a tensor of dtype float64 every product and every sum of \<open>lattice.mv\<close> is rounded
  to the nearest number with a significand of 53 bits, ties to the even significand
  (IEEE 754 binary64; the range of the exponent plays no part below and is left out).
  The products of a row are added up from the left.
\<close>

definition round_half_even :: "real \<Rightarrow> int" where
  "round_half_even r =
     (let n = \<lfloor>r\<rfloor>; d = r - of_int n
      in if d < 1 / 2 then n
         else if d > 1 / 2 then n + 1
         else if even n then n else n + 1)"

definition fl64 :: "real \<Rightarrow> real" where
  "fl64 x =
     (if x = 0 then 0
      else let e = \<lfloor>log 2 \<bar>x\<bar>\<rfloor> - 52
           in of_int (round_half_even (x / 2 powr of_int e)) * 2 powr of_int e)"

definition float64_dot :: "real list \<Rightarrow> real list \<Rightarrow> real" where
  "float64_dot row v = foldl (\<lambda>acc (a, x). fl64 (acc + fl64 (a * x))) 0 (zip row v)"

definition mv_float64 :: "real list list \<Rightarrow> real list \<Rightarrow> real list" where
  "mv_float64 A v = map (\<lambda>row. float64_dot row v) A"

section \<open>Errors raised by the array code\<close>

datatype py_error =
    AssertionError string
  | IndexError
  | ValueError
  | RuntimeError
  | ZeroDivisionError

text \<open>
  Broadcasting of the leading axis: an axis of extent one is repeated, equal extents are
  kept, anything else is a shape error.
\<close>

definition broadcast :: "'a list \<Rightarrow> nat \<Rightarrow> 'a list option" where
  "broadcast a n =
     (if length a = n then Some a
      else if length a = 1 then Some (replicate n (hd a))
      else None)"

text \<open>\<open>torch.where(mask, a, b)\<close>; the mask has the shape of the grid.\<close>

definition torch_where ::
  "('c \<Rightarrow> bool) \<Rightarrow> 'c tensor \<Rightarrow> 'c tensor \<Rightarrow> py_error + 'c tensor" where
  "torch_where msk a b =
     (let n = (if length a = 1 then length b else length a)
      in case (broadcast a n, broadcast b n) of
           (Some a', Some b') \<Rightarrow> Inr (map2 (\<lambda>g h. (\<lambda>x. if msk x then g x else h x)) a' b')
         | _ \<Rightarrow> Inl RuntimeError)"

text \<open>\<open>f[idx]\<close> with a list of indices along the leading axis.\<close>

definition index_select :: "'a list \<Rightarrow> nat list \<Rightarrow> py_error + 'a list" where
  "index_select f idx =
     (if list_ex (\<lambda>i. length f \<le> i) idx then Inl IndexError
      else Inr (map (\<lambda>i. f ! i) idx))"

section \<open>Boundary conditions (lettuce/boundary.py)\<close>

subsection \<open>BounceBackBoundary\<close>

text \<open>\<open>opposite\<close> is \<open>lattice.stencil.opposite\<close>.\<close>

definition BounceBackBoundary_call ::
  "('c \<Rightarrow> bool) \<Rightarrow> nat list \<Rightarrow> 'c tensor \<Rightarrow> py_error + 'c tensor" where
  "BounceBackBoundary_call msk opposite f =
     (case index_select f opposite of
        Inl err \<Rightarrow> Inl err
      | Inr f_opposite \<Rightarrow> torch_where msk f_opposite f)"

subsection \<open>EquilibriumBoundaryPU\<close>

text \<open>\<open>torch.ones_like(f)\<close>\<close>

definition ones_like :: "'c tensor \<Rightarrow> 'c tensor" where
  "ones_like f = map (\<lambda>_. (\<lambda>x. 1)) f"

text \<open>
  \<open>lattice.einsum("q,q->q", [a, b])\<close>: the product entry by entry along the leading
  axis and pointwise on the grid; a leading axis of extent one is broadcast.
\<close>

definition einsum_q_q :: "'c tensor \<Rightarrow> 'c tensor \<Rightarrow> py_error + 'c tensor" where
  "einsum_q_q a b =
     (let n = (if length a = 1 then length b else length a)
      in case (broadcast a n, broadcast b n) of
           (Some a', Some b') \<Rightarrow> Inr (map2 (\<lambda>g h. (\<lambda>x. g x * h x)) a' b')
         | _ \<Rightarrow> Inl RuntimeError)"

text \<open>
  The unit conversion and the lattice's equilibrium are not part of the sources at hand;
  \<open>feq\<close> is the value of \<open>self.lattice.equilibrium(rho, u)\<close> computed from the stored
  pressure and velocity.
\<close>

definition EquilibriumBoundaryPU_call ::
  "('c \<Rightarrow> bool) \<Rightarrow> 'c tensor \<Rightarrow> 'c tensor \<Rightarrow> py_error + 'c tensor" where
  "EquilibriumBoundaryPU_call msk feq f =
     (case einsum_q_q feq (ones_like f) of
        Inl err \<Rightarrow> Inl err
      | Inr feq' \<Rightarrow> torch_where msk feq' f)"

subsection \<open>AntiBounceBackOutlet\<close>

text \<open>
  The entries of a direction list are Python numbers: integers or floats. The constructor
  compares and adds them by value.
\<close>

datatype py_num = PyInt int | PyFloat real

fun num_value :: "py_num \<Rightarrow> real" where
  "num_value (PyInt i) = of_int i"
| "num_value (PyFloat x) = x"

text \<open>
  Python's \<open>str\<close> of an integer and of a list of numbers. How Python prints a float is
  not defined here: it is the argument \<open>float_repr\<close>.
\<close>

fun str_nat :: "nat \<Rightarrow> string" where
  "str_nat n =
     (if n < 10 then [''0123456789'' ! n]
      else str_nat (n div 10) @ [''0123456789'' ! (n mod 10)])"

definition str_int :: "int \<Rightarrow> string" where
  "str_int i = (if i < 0 then ''-'' @ str_nat (nat (- i)) else str_nat (nat i))"

fun str_num :: "(real \<Rightarrow> string) \<Rightarrow> py_num \<Rightarrow> string" where
  "str_num float_repr (PyInt i) = str_int i"
| "str_num float_repr (PyFloat x) = float_repr x"

fun join :: "string \<Rightarrow> string list \<Rightarrow> string" where
  "join sep [] = []"
| "join sep [x] = x"
| "join sep (x # y # ys) = x @ sep @ join sep (y # ys)"

definition str_list :: "(real \<Rightarrow> string) \<Rightarrow> py_num list \<Rightarrow> string" where
  "str_list float_repr xs = ''['' @ join '', '' (map (str_num float_repr) xs) @ '']''"

text \<open>\<open>np.max\<close> of a nonempty array.\<close>

fun np_max :: "real list \<Rightarrow> real" where
  "np_max [x] = x"
| "np_max (x # y # ys) = max x (np_max (y # ys))"

text \<open>
  The condition of the constructor's \<open>assert\<close>. The argument is a list, so
  \<open>isinstance(direction, list)\<close> holds; the assert does not look at the type of the
  entries. Sums of floats are taken exactly.
\<close>

definition direction_accepted :: "py_num list \<Rightarrow> bool" where
  "direction_accepted direction \<longleftrightarrow>
     length direction \<in> {1, 2, 3} \<and>
     (\<bar>sum_list (map num_value direction)\<bar> = 1 \<and>
      np_max (map (\<lambda>x. \<bar>num_value x\<bar>) direction) = 1 \<and>
      (list_ex (\<lambda>x. num_value x = 1) direction \<noteq> list_ex (\<lambda>x. num_value x = -1) direction))"

definition wrong_direction_message :: "(real \<Rightarrow> string) \<Rightarrow> py_num list \<Rightarrow> string" where
  "wrong_direction_message float_repr direction =
     ''Wrong direction. Expected list of length 1, 2 or 3 with all entrys 0 except one 1 or -1, '' @
     ''but got '' @ ''<class 'list'>'' @ '' of size '' @ str_nat (length direction) @
     '' and entrys '' @ str_list float_repr direction @ ''.''"

text \<open>
  What the constructor reads from the lattice. The fields of the records below carry the
  name of their class as a prefix, so that \<open>e\<close>, \<open>w\<close>, \<open>f\<close>, \<open>u\<close> and \<open>index\<close> stay free
  for variables.
\<close>

record lattice =
  lattice_D :: nat
  lattice_e :: "int list list"
  lattice_w :: "real list"

datatype index_entry = SliceAll | At int

text \<open>
  The constructed boundary. \<open>abb_w\<close> holds the weights of the selected velocities,
  \<open>lattice.w[velocities]\<close>; the view the constructor takes of them for the einsum is a
  matter of tensor shape and is left out.
\<close>

record AntiBounceBackOutlet =
  abb_velocities :: "nat list"
  abb_index :: "index_entry list"
  abb_neighbour :: "index_entry list"
  abb_dims :: string
  abb_w :: "real list"

text \<open>One entry of \<open>np.matmul(e, direction)\<close>.\<close>

definition dot :: "int list \<Rightarrow> py_num list \<Rightarrow> real" where
  "dot a b = sum_list (map2 (\<lambda>c x. of_int c * num_value x) a b)"

text \<open>\<open>np.argwhere(np.matmul(e, direction) == 1)\<close>, flattened.\<close>

definition argwhere_projection_one :: "int list list \<Rightarrow> py_num list \<Rightarrow> nat list" where
  "argwhere_projection_one es direction =
     filter (\<lambda>i. dot (es ! i) direction = 1) [0..<length es]"

text \<open>
  The loop over the entries of the direction: an entry that is neither 0 nor 1 nor -1
  adds nothing to \<open>index\<close> and \<open>neighbour\<close>.
\<close>

fun outlet_index :: "py_num list \<Rightarrow> index_entry list" where
  "outlet_index [] = []"
| "outlet_index (i # rest) =
     (if num_value i = 0 then [SliceAll] else []) @
     (if num_value i = 1 then [At (-1)] else []) @
     (if num_value i = -1 then [At 0] else []) @ outlet_index rest"

fun outlet_neighbour :: "py_num list \<Rightarrow> index_entry list" where
  "outlet_neighbour [] = []"
| "outlet_neighbour (i # rest) =
     (if num_value i = 0 then [SliceAll] else []) @
     (if num_value i = 1 then [At (-2)] else []) @
     (if num_value i = -1 then [At 1] else []) @ outlet_neighbour rest"

text \<open>
  The einsum indices by the length of the direction; the \<open>assert\<close> leaves only the
  lengths 1, 2 and 3.
\<close>

definition outlet_dims :: "nat \<Rightarrow> string" where
  "outlet_dims n =
     (if n = 3 then ''dc, cxy -> dxy''
      else if n = 2 then ''dc, cx -> dx''
      else ''dc, c -> dc'')"

definition AntiBounceBackOutlet_init ::
  "(real \<Rightarrow> string) \<Rightarrow> lattice \<Rightarrow> py_num list \<Rightarrow> py_error + AntiBounceBackOutlet" where
  "AntiBounceBackOutlet_init float_repr lat direction =
     (if \<not> direction_accepted direction
        then Inl (AssertionError (wrong_direction_message float_repr direction))
      else if length direction \<noteq> lattice_D lat \<or>
              list_ex (\<lambda>row. length row \<noteq> lattice_D lat) (lattice_e lat)
        then Inl ValueError
      else
        let selected = argwhere_projection_one (lattice_e lat) direction
        in if selected = [] then Inl ValueError
           else case index_select (lattice_w lat) selected of
                  Inl err \<Rightarrow> Inl err
                | Inr ws \<Rightarrow>
                    Inr \<lparr> abb_velocities = selected,
                          abb_index = outlet_index direction,
                          abb_neighbour = outlet_neighbour direction,
                          abb_dims = outlet_dims (length direction),
                          abb_w = ws \<rparr>)"

text \<open>
  The D2Q9 velocity set, in the order fixed by rows 1 and 2 of the D2Q9 moment matrices
  (\<open>test_conserved_moments_d2q9\<close>); the stencil module is not part of the sources at hand.
\<close>

definition D2Q9_e :: "int list list" where
  "D2Q9_e = [[0, 0], [1, 0], [0, 1], [-1, 0], [0, -1], [1, 1], [-1, 1], [-1, -1], [1, -1]]"

text \<open>
  A valid direction in the words of the assert's message: all entries 0 except one 1 or -1.
\<close>

definition exactly_one_unit_entry :: "py_num list \<Rightarrow> bool" where
  "exactly_one_unit_entry direction \<longleftrightarrow>
     length (filter (\<lambda>x. num_value x \<noteq> 0) direction) = 1 \<and>
     list_all (\<lambda>x. num_value x = 0 \<or> num_value x = 1 \<or> num_value x = -1) direction"

section \<open>BGKInitialization (lettuce/ext/\_collision/bgk\_initialization.py)\<close>

text \<open>A moment transformation: its names, \<open>transform\<close> and \<open>inverse_transform\<close>.\<close>

record 'c moment_transformation =
  mt_names :: "string list"
  mt_transform :: "'c tensor \<Rightarrow> 'c tensor"
  mt_inverse_transform :: "'c tensor \<Rightarrow> 'c tensor"

text \<open>\<open>names.index(name)\<close>\<close>

fun list_index :: "string list \<Rightarrow> string \<Rightarrow> nat option" where
  "list_index [] name = None"
| "list_index (n # ns) name =
     (if n = name then Some 0 else map_option Suc (list_index ns name))"

text \<open>\<open>Transform.__getitem__\<close> on a tuple of names.\<close>

fun Transform_getitem :: "string list \<Rightarrow> string list \<Rightarrow> py_error + nat list" where
  "Transform_getitem nms [] = Inr []"
| "Transform_getitem nms (name # rest) =
     (case list_index nms name of
        None \<Rightarrow> Inl ValueError
      | Some i \<Rightarrow>
          (case Transform_getitem nms rest of
             Inl err \<Rightarrow> Inl err
           | Inr is \<Rightarrow> Inr (i # is)))"

record 'c BGKInitialization =
  bgk_tau :: real
  bgk_moment_transformation :: "'c moment_transformation"
  bgk_u :: "'c tensor"
  bgk_rho0 :: real
  bgk_momentum_indices :: "nat list"

text \<open>
  The constructor. Of the flow it reads \<open>units.relaxation_parameter_lu\<close>, the initial
  velocity converted to lattice units, \<open>units.characteristic_density_lu\<close> and
  \<open>stencil.d\<close>; they are its arguments here.
\<close>

definition momentum_names :: "nat \<Rightarrow> string list" where
  "momentum_names d = map (\<lambda>x. ''j'' @ [x]) (take d ''xyz'')"

definition BGKInitialization_init ::
  "real \<Rightarrow> 'c tensor \<Rightarrow> real \<Rightarrow> nat \<Rightarrow> 'c moment_transformation \<Rightarrow>
   py_error + 'c BGKInitialization" where
  "BGKInitialization_init relaxation_parameter_lu u_lu characteristic_density_lu d mt =
     (case Transform_getitem (mt_names mt) (momentum_names d) of
        Inl err \<Rightarrow> Inl err
      | Inr idx \<Rightarrow>
          Inr \<lparr> bgk_tau = relaxation_parameter_lu,
                bgk_moment_transformation = mt,
                bgk_u = u_lu,
                bgk_rho0 = characteristic_density_lu,
                bgk_momentum_indices = idx \<rparr>)"

text \<open>
  What \<open>__call__\<close> reads from the flow: the populations \<open>flow.f\<close>, the density
  \<open>flow.rho()\<close> and the equilibrium \<open>flow.equilibrium(flow, rho, u)\<close>.
\<close>

record 'c flow =
  flow_f :: "'c tensor"
  flow_rho :: "'c field"
  flow_equilibrium :: "'c field \<Rightarrow> 'c tensor \<Rightarrow> 'c tensor"

text \<open>\<open>mnew[idx] = values\<close>, entry by entry.\<close>

definition index_put :: "'a list \<Rightarrow> nat list \<Rightarrow> 'a list \<Rightarrow> py_error + 'a list" where
  "index_put m idx vals =
     (if list_ex (\<lambda>i. length m \<le> i) idx then Inl IndexError
      else case broadcast vals (length idx) of
             None \<Rightarrow> Inl RuntimeError
           | Some vs \<Rightarrow> Inr (fold (\<lambda>(i, v) acc. acc[i := v]) (zip idx vs) m))"

definition BGKInitialization_call ::
  "'c BGKInitialization \<Rightarrow> 'c flow \<Rightarrow> py_error + 'c tensor" where
  "BGKInitialization_call self fl =
     (let rho' = flow_rho fl;
          feq = flow_equilibrium fl rho' (bgk_u self);
          m = mt_transform (bgk_moment_transformation self) (flow_f fl);
          meq = mt_transform (bgk_moment_transformation self) feq
      in if bgk_tau self = 0 \<or> bgk_tau self + 1 = 0 then Inl ZeroDivisionError
         else if length m \<noteq> length meq then Inl RuntimeError
         else
           let mnew = map2 (\<lambda>a b. (\<lambda>x. a x - 1.0 / bgk_tau self * (a x - b x))) m meq
           in if mnew = [] then Inl IndexError
              else
                let mnew = mnew[0 := (\<lambda>x. (m ! 0) x
                                  - 1.0 / (bgk_tau self + 1) * ((m ! 0) x - (meq ! 0) x))]
                in case index_put mnew (bgk_momentum_indices self)
                          (map (\<lambda>uk. (\<lambda>x. rho' x * uk x)) (bgk_u self)) of
                     Inl err \<Rightarrow> Inl err
                   | Inr mnew \<Rightarrow> Inr (mt_inverse_transform (bgk_moment_transformation self) mnew))"

section \<open>The generator (orchestrator)\<close>

text \<open>
  Modelled from the spec: the Generator class (registry of fragment keys, slot table,
  code buffers and the methods the components call on it) is not part of the sources at
  hand. The registry holds the FragmentKeys already emitted. The slot table has one
  mapping for the launcher parameters and one for the kernel parameters, from the
  parameter name to its declaration and the expressions supplying its value. The buffers
  are text accumulators: appends render in the order they were made.
\<close>

datatype gen_error = GenerationError string

record generator =
  registry :: "string list"
  launcher_hooks :: "(string \<times> string \<times> string \<times> string) list"
  kernel_hooks :: "(string \<times> string \<times> string) list"
  hook_buffer :: "string list"
  index_buffer :: "string list"
  write_buffer :: "string list"
  python_wrapper_before_buffer :: "string list"
  python_wrapper_after_buffer :: "string list"

definition registered :: "generator \<Rightarrow> string \<Rightarrow> bool" where
  "registered g key \<longleftrightarrow> key \<in> set (registry g)"

definition register :: "string \<Rightarrow> generator \<Rightarrow> generator" where
  "register key g = g\<lparr>registry := registry g @ [key]\<rparr>"

definition launcher_hooked :: "generator \<Rightarrow> string \<Rightarrow> bool" where
  "launcher_hooked g name \<longleftrightarrow> name \<in> set (map fst (launcher_hooks g))"

definition kernel_hooked :: "generator \<Rightarrow> string \<Rightarrow> bool" where
  "kernel_hooked g name \<longleftrightarrow> name \<in> set (map fst (kernel_hooks g))"

text \<open>
  Modelled from the spec: a parameter name resolves to the same declared type everywhere;
  registering a name again with a different declaration is a generation error.
\<close>

definition launcher_hook ::
  "string \<Rightarrow> string \<Rightarrow> string \<Rightarrow> string \<Rightarrow> generator \<Rightarrow> gen_error + generator" where
  "launcher_hook name declaration argument py_value g =
     (case map_of (launcher_hooks g) name of
        None \<Rightarrow>
          Inr (g\<lparr>launcher_hooks :=
                   launcher_hooks g @ [(name, declaration, argument, py_value)]\<rparr>)
      | Some (declared, _) \<Rightarrow>
          if declared = declaration then Inr g else Inl (GenerationError name))"

definition kernel_hook ::
  "string \<Rightarrow> string \<Rightarrow> string \<Rightarrow> generator \<Rightarrow> gen_error + generator" where
  "kernel_hook name declaration expression g =
     (case map_of (kernel_hooks g) name of
        None \<Rightarrow> Inr (g\<lparr>kernel_hooks := kernel_hooks g @ [(name, declaration, expression)]\<rparr>)
      | Some (declared, _) \<Rightarrow>
          if declared = declaration then Inr g else Inl (GenerationError name))"

definition append_hook_buffer :: "string \<Rightarrow> bool \<Rightarrow> generator \<Rightarrow> generator" where
  "append_hook_buffer it cond g = (if cond then g\<lparr>hook_buffer := hook_buffer g @ [it]\<rparr> else g)"

definition append_index_buffer :: "string \<Rightarrow> bool \<Rightarrow> generator \<Rightarrow> generator" where
  "append_index_buffer it cond g =
     (if cond then g\<lparr>index_buffer := index_buffer g @ [it]\<rparr> else g)"

definition append_write_buffer :: "string \<Rightarrow> bool \<Rightarrow> generator \<Rightarrow> generator" where
  "append_write_buffer it cond g =
     (if cond then g\<lparr>write_buffer := write_buffer g @ [it]\<rparr> else g)"

definition append_python_wrapper_before_buffer :: "string \<Rightarrow> bool \<Rightarrow> generator \<Rightarrow> generator" where
  "append_python_wrapper_before_buffer it cond g =
     (if cond then g\<lparr>python_wrapper_before_buffer := python_wrapper_before_buffer g @ [it]\<rparr>
      else g)"

definition append_python_wrapper_after_buffer :: "string \<Rightarrow> bool \<Rightarrow> generator \<Rightarrow> generator" where
  "append_python_wrapper_after_buffer it cond g =
     (if cond then g\<lparr>python_wrapper_after_buffer := python_wrapper_after_buffer g @ [it]\<rparr>
      else g)"

text \<open>A generation error aborts what follows it.\<close>

definition and_then :: "gen_error + 'a \<Rightarrow> ('a \<Rightarrow> gen_error + 'b) \<Rightarrow> gen_error + 'b" where
  "and_then r k = (case r of Inl err \<Rightarrow> Inl err | Inr g \<Rightarrow> k g)"

text \<open>
  Modelled from the spec: the primitive generators (\<open>generate_q\<close>, \<open>generate_d\<close>,
  \<open>generate_e\<close>, \<open>generate_offset\<close>, \<open>generate_index\<close>, \<open>generate_dimension\<close>) are
  not part of the sources at hand. Each is requested by name and is idempotent: the first
  call registers its FragmentKey and inserts its definition into the kernel preamble, and
  it has no other effect. The keys and the inserted text are left open, as is the text
  that \<open>get_lattice_coordinate\<close> returns for a list of coordinate expressions.
\<close>

datatype primitive =
  Prim_q | Prim_d | Prim_e | Prim_offset | Prim_index | Prim_dimension

record native_env =
  stencil_D :: nat
  primitive_key :: "primitive \<Rightarrow> string"
  primitive_code :: "primitive \<Rightarrow> string"
  get_lattice_coordinate :: "string list \<Rightarrow> string"

definition generate_primitive :: "native_env \<Rightarrow> primitive \<Rightarrow> generator \<Rightarrow> generator" where
  "generate_primitive env p g =
     (if \<not> registered g (primitive_key env p)
      then append_hook_buffer (primitive_code env p) True (register (primitive_key env p) g)
      else g)"

section \<open>Streaming components (lettuce/native\_generator/\_streaming.py)\<close>

datatype NativeStreaming =
    NativeNoStreaming
  | NativeStandardStreaming bool

fun support_no_streaming_mask_of :: "NativeStreaming \<Rightarrow> bool" where
  "support_no_streaming_mask_of NativeNoStreaming = False"
| "support_no_streaming_mask_of (NativeStandardStreaming support) = support"

fun NativeStreaming_name :: "NativeStreaming \<Rightarrow> string" where
  "NativeStreaming_name NativeNoStreaming = ''no''"
| "NativeStreaming_name (NativeStandardStreaming support) =
     ''standard'' @ (if support then ''M'' else [])"

definition generate_no_stream_mask :: "generator \<Rightarrow> gen_error + generator" where
  "generate_no_stream_mask g =
     and_then
       (if \<not> launcher_hooked g ''no_stream_mask''
        then launcher_hook ''no_stream_mask'' ''const at::Tensor no_stream_mask''
               ''no_stream_mask'' ''simulation.streaming.no_stream_mask''
               (append_python_wrapper_before_buffer
                  ''assert hasattr(simulation.streaming, 'no_stream_mask')'' True g)
        else Inr g)
       (\<lambda>g. if \<not> kernel_hooked g ''no_stream_mask''
            then kernel_hook ''no_stream_mask'' ''const byte_t* no_stream_mask''
                   ''no_stream_mask.data<byte_t>()'' g
            else Inr g)"

text \<open>A run of \<open>append_index_buffer\<close> and \<open>append_write_buffer\<close> calls, in order.\<close>

definition append_index_lines :: "(string \<times> bool) list \<Rightarrow> generator \<Rightarrow> generator" where
  "append_index_lines ls g = fold (\<lambda>(it, cond). append_index_buffer it cond) ls g"

definition append_write_lines :: "(string \<times> bool) list \<Rightarrow> generator \<Rightarrow> generator" where
  "append_write_lines ls g = fold (\<lambda>(it, cond). append_write_buffer it cond) ls g"

subsection \<open>NativeNoStreaming\<close>

definition no_streaming_read_lines :: "nat \<Rightarrow> string \<Rightarrow> (string \<times> bool) list" where
  "no_streaming_read_lines d coord =
     [(''                                          '', True),
      (''    scalar_t f_reg[q];                    '', True),
      (''                                          '', True),
      (''#pragma unroll                            '', True),
      (''    for (index_t i = 0; i < q; ++i) {    '', True),
      (''                                          '', True),
      (''      const index_t q_ = i;               '', True),
      (''      const index_t x_ = index[0];        '', 0 < d),
      (''      const index_t y_ = index[1];        '', 1 < d),
      (''      const index_t z_ = index[2];        '', 2 < d),
      (''                                          '', True),
      (''      f_reg[i] = f['' @ coord @ ''];              '', True),
      (''    }                                    '', True),
      (''                                          '', True)]"

definition no_streaming_write_lines :: "nat \<Rightarrow> string \<Rightarrow> (string \<times> bool) list" where
  "no_streaming_write_lines d coord =
     [(''                                          '', True),
      (''#pragma unroll                            '', True),
      (''    for (index_t i = 0; i < q; ++i) {    '', True),
      (''                                          '', True),
      (''      const index_t q_ = i;               '', True),
      (''      const index_t x_ = index[0];        '', 0 < d),
      (''      const index_t y_ = index[1];        '', 1 < d),
      (''      const index_t z_ = index[2];        '', 2 < d),
      (''                                          '', True),
      (''      f['' @ coord @ ''] = f_reg[i];              '', True),
      (''    }                                    '', True),
      (''                                          '', True)]"

definition NativeNoStreaming_generate_read_write ::
  "native_env \<Rightarrow> generator \<Rightarrow> gen_error + generator" where
  "NativeNoStreaming_generate_read_write env g =
     (if \<not> registered g ''read_write()'' then
        let g = register ''read_write()'' g;
            g = generate_primitive env Prim_q g;
            g = generate_primitive env Prim_d g;
            g = generate_primitive env Prim_offset g;
            d = stencil_D env;
            coord = get_lattice_coordinate env (take (d + 1) [''q_'', ''x_'', ''y_'', ''z_'']);
            g = append_index_lines (no_streaming_read_lines d coord) g;
            g = append_write_lines (no_streaming_write_lines d coord) g
        in Inr g
      else Inr g)"

subsection \<open>NativeStandardStreaming\<close>

definition generate_f_next :: "generator \<Rightarrow> gen_error + generator" where
  "generate_f_next g =
     (if \<not> registered g ''f_next'' then
        let g = register ''f_next'' g;
            g = append_python_wrapper_after_buffer
                  ''simulation.f, simulation.f_next = simulation.f_next, simulation.f'' True g
        in and_then
             (if \<not> launcher_hooked g ''f_next''
              then launcher_hook ''f_next'' ''at::Tensor f_next'' ''f_next'' ''simulation.f_next''
                     (append_python_wrapper_before_buffer
                        ''assert hasattr(simulation, 'f_next')'' True g)
              else Inr g)
             (\<lambda>g. if \<not> kernel_hooked g ''f_next''
                  then kernel_hook ''f_next'' ''scalar_t *f_next'' ''f_next.data<scalar_t>()'' g
                  else Inr g)
      else Inr g)"

definition standard_streaming_read_lines :: "nat \<Rightarrow> string \<Rightarrow> (string \<times> bool) list" where
  "standard_streaming_read_lines d coord =
     [(''                                      '', True),
      (''  scalar_t f_reg[q];                  '', True),
      (''                                      '', True),
      (''#pragma unroll                        '', True),
      (''  for (index_t i = 0; i < q; ++i) {  '', True),
      (''                                      '', True),
      (''    const index_t q_ = i;             '', True),
      (''    const index_t x_ = index[0];      '', 0 < d),
      (''    const index_t y_ = index[1];      '', 1 < d),
      (''    const index_t z_ = index[2];      '', 2 < d),
      (''                                      '', True),
      (''    f_reg[i] = f['' @ coord @ ''];            '', True),
      (''  }                                  '', True),
      (''                                      '', True)]"

definition standard_streaming_write_lines ::
  "bool \<Rightarrow> nat \<Rightarrow> string \<Rightarrow> string \<Rightarrow> (string \<times> bool) list" where
  "standard_streaming_write_lines support_no_streaming_mask d coord mask_coord =
     [(''                                                         '', True),
      (''#pragma unroll                                           '', True),
      (''  for (index_t i = 0; i < q; ++i) {                     '', True),
      (''                                                         '', True),
      (''    const index_t q_ = i;                                '', True),
      (''                                                         '', support_no_streaming_mask),
      (''    if (no_stream_mask['' @ mask_coord @ '']) {                 '', support_no_streaming_mask),
      (''                                                         '', support_no_streaming_mask),
      (''      const index_t x_ = index[0];                       '', support_no_streaming_mask \<and> 0 < d),
      (''      const index_t y_ = index[1];                       '', support_no_streaming_mask \<and> 1 < d),
      (''      const index_t z_ = index[2];                       '', support_no_streaming_mask \<and> 2 < d),
      (''                                                         '', support_no_streaming_mask),
      (''      f_next['' @ coord @ ''] = f_reg[i];                        '', support_no_streaming_mask),
      (''                                                         '', support_no_streaming_mask),
      (''    } else {                                           '', support_no_streaming_mask),
      (''                                                         '', True),
      (''      index_t x_ = index[0] + e[i][0];                   '', 0 < d),
      (''            if (x_ <  0)            x_ += dimension[0];  '', 0 < d),
      (''       else if (x_ >= dimension[0]) x_ -= dimension[0];  '', 0 < d),
      (''                                                         '', 0 < d),
      (''      index_t y_ = index[1] + e[i][1];                   '', 1 < d),
      (''            if (y_ <  0)            y_ += dimension[1];  '', 1 < d),
      (''       else if (y_ >= dimension[1]) y_ -= dimension[1];  '', 1 < d),
      (''                                                         '', 1 < d),
      (''      index_t z_ = index[2] + e[i][2];                   '', 2 < d),
      (''            if (z_ <  0)            z_ += dimension[2];  '', 2 < d),
      (''       else if (z_ >= dimension[2]) z_ -= dimension[2];  '', 2 < d),
      (''                                                         '', 2 < d),
      (''      f_next['' @ coord @ ''] = f_reg[i];                        '', True),
      (''                                                         '', True),
      (''    }                                                   '', support_no_streaming_mask),
      (''  }                                                     '', True),
      (''                                                         '', True)]"

definition NativeStandardStreaming_generate_read_write ::
  "bool \<Rightarrow> native_env \<Rightarrow> generator \<Rightarrow> gen_error + generator" where
  "NativeStandardStreaming_generate_read_write support_no_streaming_mask env g =
     (if \<not> registered g ''read_write()'' then
        let g = register ''read_write()'' g
        in and_then
             (if support_no_streaming_mask then generate_no_stream_mask g else Inr g)
             (\<lambda>g. and_then (generate_f_next g)
                (\<lambda>g.
                   let g = generate_primitive env Prim_offset g;
                       g = generate_primitive env Prim_index g;
                       g = generate_primitive env Prim_dimension g;
                       g = generate_primitive env Prim_q g;
                       g = generate_primitive env Prim_e g;
                       d = stencil_D env;
                       coord = get_lattice_coordinate env
                                 (take (d + 1) [''q_'', ''x_'', ''y_'', ''z_'']);
                       mask_coord = get_lattice_coordinate env
                                      (take d [''index[0]'', ''index[1]'', ''index[2]'']);
                       g = append_index_lines (standard_streaming_read_lines d coord) g;
                       g = append_write_lines
                             (standard_streaming_write_lines support_no_streaming_mask d
                                coord mask_coord) g
                   in Inr g))
      else Inr g)"

fun generate_read_write ::
  "NativeStreaming \<Rightarrow> native_env \<Rightarrow> generator \<Rightarrow> gen_error + generator" where
  "generate_read_write NativeNoStreaming env g = NativeNoStreaming_generate_read_write env g"
| "generate_read_write (NativeStandardStreaming support) env g =
     NativeStandardStreaming_generate_read_write support env g"

subsection \<open>A generation run\<close>

text \<open>
  Modelled from the spec: \<open>generate()\<close> is not part of the sources at hand. It resets all
  buffers and the FragmentKey registry, then lets each configured component contribute in
  a fixed order, the streaming component last. The slot table is not among what the reset
  is said to clear, so it is kept. The components before streaming are not part of the
  sources; they are the list \<open>components\<close> of contributions.
\<close>

definition reset :: "generator \<Rightarrow> generator" where
  "reset g =
     g\<lparr> registry := [],
        hook_buffer := [], index_buffer := [], write_buffer := [],
        python_wrapper_before_buffer := [], python_wrapper_after_buffer := [] \<rparr>"

definition generate ::
  "native_env \<Rightarrow> (generator \<Rightarrow> gen_error + generator) list \<Rightarrow> NativeStreaming \<Rightarrow>
   generator \<Rightarrow> gen_error + generator" where
  "generate env components streaming g =
     and_then (fold (\<lambda>c r. and_then r c) components (Inr (reset g)))
       (generate_read_write streaming env)"

text \<open>
  The part of the generator that the guards on the slot table do not reach: the registry
  and the buffers other than the pre-launch block.
\<close>

definition slot_free :: "generator \<Rightarrow> generator" where
  "slot_free g =
     g\<lparr> launcher_hooks := [], kernel_hooks := [], python_wrapper_before_buffer := [] \<rparr>"

section \<open>Running the emitted streaming code\<close>

text \<open>
  Modelled from the spec: the kernel template into which the index and write blocks are
  placed is not part of the sources at hand. The kernel runs once per lattice cell, with
  \<open>index\<close> the coordinate of the cell, \<open>dimension\<close> the grid extent, \<open>e\<close> the velocity
  vectors and \<open>q\<close> their number; \<open>f\<close> and \<open>f_next\<close> are the two distribution buffers and
  \<open>no_stream_mask\<close> the per-cell mask. The declaration of \<open>index_t\<close> is in the template;
  it is taken as a signed integer type wide enough for the coordinates. The text that
  \<open>get_lattice_coordinate\<close> returns for a list of coordinate expressions is the flattened
  offset of the entry at the coordinates the expressions evaluate to; entries at different
  coordinates are different entries, so a buffer is a function of the coordinates.
\<close>

type_synonym index_t = int

record kernel_args =
  kernel_q :: nat
  kernel_e :: "index_t list list"
  kernel_dimension :: "index_t list"
  kernel_index :: "index_t list"
  kernel_no_stream_mask :: "index_t list \<Rightarrow> bool"

text \<open>The registers \<open>f_reg\<close> of the thread (unset until loaded) and the two buffers.\<close>

record 'a memory =
  mem_f_reg :: "nat \<Rightarrow> 'a option"
  mem_f :: "index_t list \<Rightarrow> 'a"
  mem_f_next :: "index_t list \<Rightarrow> 'a"

subsection \<open>The statements of the emitted text\<close>

text \<open>
  The coordinate expressions that occur in the emitted lines: a variable, \<open>index[k]\<close>
  and \<open>index[k] + e[i][k]\<close>.
\<close>

datatype expression =
    Variable string
  | Index nat
  | Index_plus_e nat

definition expression_of :: "string \<Rightarrow> expression option" where
  "expression_of =
     map_of
       [(''i'', Variable ''i''),
        (''q_'', Variable ''q_''),
        (''x_'', Variable ''x_''),
        (''y_'', Variable ''y_''),
        (''z_'', Variable ''z_''),
        (''index[0]'', Index 0),
        (''index[1]'', Index 1),
        (''index[2]'', Index 2),
        (''index[0] + e[i][0]'', Index_plus_e 0),
        (''index[1] + e[i][1]'', Index_plus_e 1),
        (''index[2] + e[i][2]'', Index_plus_e 2)]"

datatype statement =
    Blank
  | Pragma_unroll
  | Declare_registers
  | For_each_direction
  | Close_brace
  | Else_branch
  | Declare string expression
  | If_negative_add string nat
  | Else_if_at_least_subtract string nat
  | If_no_stream_mask "expression list"
  | Load_register "expression list"
  | Store_f_next "expression list"

text \<open>A line without the blanks around it.\<close>

definition trim :: "string \<Rightarrow> string" where
  "trim s = rev (dropWhile (\<lambda>c. c = CHR '' '') (rev (dropWhile (\<lambda>c. c = CHR '' '') s)))"

text \<open>The lines without a coordinate text in them, as they are emitted.\<close>

definition statement_table :: "(string \<times> statement) list" where
  "statement_table =
     [('''', Blank),
      (''#pragma unroll'', Pragma_unroll),
      (''scalar_t f_reg[q];'', Declare_registers),
      (''for (index_t i = 0; i < q; ++i) {'', For_each_direction),
      (''}'', Close_brace),
      (''} else {'', Else_branch),
      (''const index_t q_ = i;'', Declare ''q_'' (Variable ''i'')),
      (''const index_t x_ = index[0];'', Declare ''x_'' (Index 0)),
      (''const index_t y_ = index[1];'', Declare ''y_'' (Index 1)),
      (''const index_t z_ = index[2];'', Declare ''z_'' (Index 2)),
      (''index_t x_ = index[0] + e[i][0];'', Declare ''x_'' (Index_plus_e 0)),
      (''index_t y_ = index[1] + e[i][1];'', Declare ''y_'' (Index_plus_e 1)),
      (''index_t z_ = index[2] + e[i][2];'', Declare ''z_'' (Index_plus_e 2)),
      (''if (x_ <  0)            x_ += dimension[0];'', If_negative_add ''x_'' 0),
      (''if (y_ <  0)            y_ += dimension[1];'', If_negative_add ''y_'' 1),
      (''if (z_ <  0)            z_ += dimension[2];'', If_negative_add ''z_'' 2),
      (''else if (x_ >= dimension[0]) x_ -= dimension[0];'', Else_if_at_least_subtract ''x_'' 0),
      (''else if (y_ >= dimension[1]) y_ -= dimension[1];'', Else_if_at_least_subtract ''y_'' 1),
      (''else if (z_ >= dimension[2]) z_ -= dimension[2];'', Else_if_at_least_subtract ''z_'' 2)]"

text \<open>
  The statement a line stands for. The lines with a coordinate text in them are
  recognised by the text that \<open>get_lattice_coordinate\<close> returns for the expressions
  the streaming components hand to it.
\<close>

definition statement_of :: "native_env \<Rightarrow> string \<Rightarrow> statement option" where
  "statement_of env line =
     (let t = trim line;
          d = stencil_D env;
          cell = take (d + 1) [''q_'', ''x_'', ''y_'', ''z_''];
          mask_cell = take d [''index[0]'', ''index[1]'', ''index[2]'']
      in if t = ''f_reg[i] = f['' @ get_lattice_coordinate env cell @ ''];''
         then map_option Load_register (those (map expression_of cell))
         else if t = ''f_next['' @ get_lattice_coordinate env cell @ ''] = f_reg[i];''
         then map_option Store_f_next (those (map expression_of cell))
         else if t = ''if (no_stream_mask['' @ get_lattice_coordinate env mask_cell @ '']) {''
         then map_option If_no_stream_mask (those (map expression_of mask_cell))
         else map_of statement_table t)"

subsection \<open>The statements, run\<close>

text \<open>
  The state inside the loop body: the memory, the variables in scope, the open \<open>if\<close>
  blocks (whether the enclosing code runs, whether the branch at hand is the one taken,
  and the variables in scope outside the block), and whether the condition of an
  \<open>if\<close> statement just run held, for the \<open>else if\<close> that may follow it.
\<close>

record 'a machine =
  mc_memory :: "'a memory"
  mc_vars :: "string \<Rightarrow> index_t option"
  mc_frames :: "(bool \<times> bool \<times> (string \<Rightarrow> index_t option)) list"
  mc_last_if :: "bool option"

definition active :: "'a machine \<Rightarrow> bool" where
  "active m = (case mc_frames m of [] \<Rightarrow> True | (outer, taken, _) # _ \<Rightarrow> outer \<and> taken)"

fun eval :: "kernel_args \<Rightarrow> (string \<Rightarrow> index_t option) \<Rightarrow> expression \<Rightarrow> index_t option" where
  "eval args vars (Variable v) = vars v"
| "eval args vars (Index k) =
     (if k < length (kernel_index args) then Some (kernel_index args ! k) else None)"
| "eval args vars (Index_plus_e k) =
     (case vars ''i'' of
        None \<Rightarrow> None
      | Some i \<Rightarrow>
          if k < length (kernel_index args) \<and> 0 \<le> i \<and> nat i < length (kernel_e args)
             \<and> k < length (kernel_e args ! nat i)
          then Some (kernel_index args ! k + kernel_e args ! nat i ! k)
          else None)"

definition eval_all ::
  "kernel_args \<Rightarrow> (string \<Rightarrow> index_t option) \<Rightarrow> expression list \<Rightarrow> index_t list option" where
  "eval_all args vars es = those (map (eval args vars) es)"

text \<open>
  A statement that is neither the start nor the end of a block, in code that runs, with
  the meaning it has in C. Reading a variable that is not in scope, an entry outside
  \<open>index\<close>, \<open>dimension\<close> or \<open>e\<close>, or a register that is not set, is an error, and so is an
  \<open>else if\<close> that does not follow an \<open>if\<close>. That a variable is \<open>const\<close> is not tracked: no
  emitted line assigns to one. The statements around the loop do not occur inside it.
\<close>

fun run_simple :: "kernel_args \<Rightarrow> statement \<Rightarrow> 'a machine \<Rightarrow> 'a machine option" where
  "run_simple args Blank m = Some m"
| "run_simple args (Declare v ex) m =
     (case eval args (mc_vars m) ex of
        None \<Rightarrow> None
      | Some x \<Rightarrow> Some (m\<lparr>mc_vars := (mc_vars m)(v \<mapsto> x), mc_last_if := None\<rparr>))"
| "run_simple args (If_negative_add v k) m =
     (case mc_vars m v of
        None \<Rightarrow> None
      | Some x \<Rightarrow>
          if k < length (kernel_dimension args)
          then Some (m\<lparr>mc_vars :=
                          (mc_vars m)(v \<mapsto> if x < 0 then x + kernel_dimension args ! k else x),
                        mc_last_if := Some (x < 0)\<rparr>)
          else None)"
| "run_simple args (Else_if_at_least_subtract v k) m =
     (case (mc_last_if m, mc_vars m v) of
        (Some held, Some x) \<Rightarrow>
          if k < length (kernel_dimension args)
          then Some (m\<lparr>mc_vars :=
                          (mc_vars m)(v \<mapsto> if \<not> held \<and> x \<ge> kernel_dimension args ! k
                                            then x - kernel_dimension args ! k else x),
                        mc_last_if := None\<rparr>)
          else None
      | _ \<Rightarrow> None)"
| "run_simple args (Load_register es) m =
     (case (mc_vars m ''i'', eval_all args (mc_vars m) es) of
        (Some i, Some a) \<Rightarrow>
          if 0 \<le> i
          then Some (m\<lparr>mc_memory :=
                          (mc_memory m)\<lparr>mem_f_reg :=
                             (mem_f_reg (mc_memory m))(nat i \<mapsto> mem_f (mc_memory m) a)\<rparr>,
                        mc_last_if := None\<rparr>)
          else None
      | _ \<Rightarrow> None)"
| "run_simple args (Store_f_next es) m =
     (case (mc_vars m ''i'', eval_all args (mc_vars m) es) of
        (Some i, Some a) \<Rightarrow>
          (case (if 0 \<le> i then mem_f_reg (mc_memory m) (nat i) else None) of
             None \<Rightarrow> None
           | Some v \<Rightarrow>
               Some (m\<lparr>mc_memory :=
                         (mc_memory m)\<lparr>mem_f_next := (mem_f_next (mc_memory m))(a := v)\<rparr>,
                       mc_last_if := None\<rparr>))
      | _ \<Rightarrow> None)"
| "run_simple args _ m = None"

text \<open>
  A statement of the loop body. The start of an \<open>if\<close> block opens a frame, \<open>} else {\<close>
  switches to the other branch and \<open>}\<close> closes the frame; both end the scope of the
  variables declared in the branch. Code in a branch that is not taken is skipped.
\<close>

fun run_statement :: "kernel_args \<Rightarrow> statement \<Rightarrow> 'a machine \<Rightarrow> 'a machine option" where
  "run_statement args (If_no_stream_mask es) m =
     (if active m
      then (case eval_all args (mc_vars m) es of
              None \<Rightarrow> None
            | Some c \<Rightarrow>
                Some (m\<lparr>mc_frames := (True, kernel_no_stream_mask args c, mc_vars m) # mc_frames m,
                        mc_last_if := None\<rparr>))
      else Some (m\<lparr>mc_frames := (False, False, mc_vars m) # mc_frames m\<rparr>))"
| "run_statement args Else_branch m =
     (case mc_frames m of
        [] \<Rightarrow> None
      | (outer, taken, saved) # frames \<Rightarrow>
          Some (m\<lparr>mc_frames := (outer, \<not> taken, saved) # frames, mc_vars := saved,
                  mc_last_if := None\<rparr>))"
| "run_statement args Close_brace m =
     (case mc_frames m of
        [] \<Rightarrow> None
      | (outer, taken, saved) # frames \<Rightarrow>
          Some (m\<lparr>mc_frames := frames, mc_vars := saved, mc_last_if := None\<rparr>))"
| "run_statement args s m = (if active m then run_simple args s m else Some m)"

primrec run_statements ::
  "kernel_args \<Rightarrow> statement list \<Rightarrow> 'a machine \<Rightarrow> 'a machine option" where
  "run_statements args [] m = Some m"
| "run_statements args (s # ss) m =
     (case run_statement args s m of
        None \<Rightarrow> None
      | Some m' \<Rightarrow> run_statements args ss m')"

text \<open>
  One pass through the loop body, with \<open>i\<close> the loop counter: the variables of the body
  are local to the pass, and every block opened in the body is closed in it.
\<close>

definition run_iteration ::
  "kernel_args \<Rightarrow> statement list \<Rightarrow> nat \<Rightarrow> 'a memory \<Rightarrow> 'a memory option" where
  "run_iteration args body i mem =
     (case run_statements args body
             \<lparr>mc_memory = mem, mc_vars = [''i'' \<mapsto> int i], mc_frames = [],
              mc_last_if = None\<rparr> of
        None \<Rightarrow> None
      | Some m \<Rightarrow> if mc_frames m = [] then Some (mc_memory m) else None)"

text \<open>\<open>for (index_t i = 0; i < q; ++i)\<close>: the passes for the values of \<open>i\<close> in order.\<close>

primrec for_loop ::
  "kernel_args \<Rightarrow> statement list \<Rightarrow> nat list \<Rightarrow> 'a memory \<Rightarrow> 'a memory option" where
  "for_loop args body [] mem = Some mem"
| "for_loop args body (i # rest) mem =
     (case run_iteration args body i mem of
        None \<Rightarrow> None
      | Some mem' \<Rightarrow> for_loop args body rest mem')"

text \<open>
  The body of the loop: the statements up to the closing brace of the \<open>for\<close>, and what
  comes after it. \<open>depth\<close> counts the blocks open inside the body.
\<close>

primrec loop_body :: "statement list \<Rightarrow> nat \<Rightarrow> (statement list \<times> statement list) option" where
  "loop_body [] depth = None"
| "loop_body (s # ss) depth =
     (if s = Close_brace \<and> depth = 0 then Some ([], ss)
      else map_option (\<lambda>(body, rest). (s # body, rest))
             (loop_body ss
                (case s of
                   If_no_stream_mask _ \<Rightarrow> depth + 1
                 | Close_brace \<Rightarrow> depth - 1
                 | _ \<Rightarrow> depth)))"

text \<open>The statements outside the loop: the declaration of the registers, and no more.\<close>

primrec run_outside :: "statement list \<Rightarrow> 'a memory \<Rightarrow> 'a memory option" where
  "run_outside [] mem = Some mem"
| "run_outside (s # ss) mem =
     (case s of
        Blank \<Rightarrow> run_outside ss mem
      | Pragma_unroll \<Rightarrow> run_outside ss mem
      | Declare_registers \<Rightarrow> run_outside ss (mem\<lparr>mem_f_reg := (\<lambda>i. None)\<rparr>)
      | _ \<Rightarrow> None)"

text \<open>
  A block of emitted lines with one loop over the directions in it, as each of the
  streaming components emits them: what is before the loop, the loop, what is after it.
\<close>

definition run_block ::
  "native_env \<Rightarrow> kernel_args \<Rightarrow> string list \<Rightarrow> 'a memory \<Rightarrow> 'a memory option" where
  "run_block env args lines mem =
     (case those (map (statement_of env) lines) of
        None \<Rightarrow> None
      | Some statements \<Rightarrow>
          (case loop_body (dropWhile (\<lambda>s. s \<noteq> For_each_direction) statements) 0 of
             None \<Rightarrow> None
           | Some (for_and_body, after) \<Rightarrow>
               (case run_outside (takeWhile (\<lambda>s. s \<noteq> For_each_direction) statements) mem of
                  None \<Rightarrow> None
                | Some mem1 \<Rightarrow>
                    (case for_loop args (tl for_and_body) [0..<kernel_q args] mem1 of
                       None \<Rightarrow> None
                     | Some mem2 \<Rightarrow> run_outside after mem2))))"

subsection \<open>A time step\<close>

text \<open>
  Modelled from the spec: the kernel of one cell runs the index block and then the write
  block, with the registers its own and the buffers shared. The code that other
  components put between the two blocks is not part of this model. The cells are
  launched with no ordering guarantee between them; a schedule is one order in which
  their kernels may run.
\<close>

definition run_cell ::
  "native_env \<Rightarrow> kernel_args \<Rightarrow> generator \<Rightarrow> index_t list \<Rightarrow> 'a memory \<Rightarrow> 'a memory option" where
  "run_cell env args g cell mem =
     (case run_block env (args\<lparr>kernel_index := cell\<rparr>) (index_buffer g) mem of
        None \<Rightarrow> None
      | Some mem1 \<Rightarrow> run_block env (args\<lparr>kernel_index := cell\<rparr>) (write_buffer g) mem1)"

primrec run_cells ::
  "native_env \<Rightarrow> kernel_args \<Rightarrow> generator \<Rightarrow> index_t list list \<Rightarrow> 'a memory \<Rightarrow>
   'a memory option" where
  "run_cells env args g [] mem = Some mem"
| "run_cells env args g (cell # schedule) mem =
     (case run_cell env args g cell mem of
        None \<Rightarrow> None
      | Some mem' \<Rightarrow> run_cells env args g schedule mem')"

subsection \<open>The wraparound in the words of the spec\<close>

text \<open>
  Modelled from the spec: add the extent to a negative coordinate, else take it off a
  coordinate that has reached it. The neighbour of a cell in a direction has, on every
  axis, the wrapped sum of the cell's coordinate and the direction's component.
\<close>

definition periodic_wraparound :: "int \<Rightarrow> int \<Rightarrow> int" where
  "periodic_wraparound coordinate extent =
     (if coordinate < 0 then coordinate + extent
      else if coordinate \<ge> extent then coordinate - extent
      else coordinate)"

definition neighbour :: "nat \<Rightarrow> kernel_args \<Rightarrow> nat \<Rightarrow> index_t list" where
  "neighbour d args i =
     map (\<lambda>k. periodic_wraparound (kernel_index args ! k + kernel_e args ! i ! k)
                (kernel_dimension args ! k))
       [0..<min d 3]"

definition own_cell :: "nat \<Rightarrow> kernel_args \<Rightarrow> index_t list" where
  "own_cell d args = map (\<lambda>k. kernel_index args ! k) [0..<min d 3]"

section \<open>The post-launch statement\<close>

text \<open>
  What the statement \<open>simulation.f, simulation.f_next = simulation.f_next, simulation.f\<close>
  does when the wrapper runs it: the right-hand side is evaluated to a pair of references,
  which are then bound to the two attributes. The buffers themselves live in the store.
\<close>

record 'b simulation =
  sim_f :: nat
  sim_f_next :: nat
  sim_store :: "nat \<Rightarrow> 'b"

definition exchange_f_and_f_next :: "'b simulation \<Rightarrow> 'b simulation" where
  "exchange_f_and_f_next sim =
     (let (a, b) = (sim_f_next sim, sim_f sim)
      in (sim\<lparr>sim_f := a\<rparr>)\<lparr>sim_f_next := b\<rparr>)"

section \<open>Concrete inputs\<close>

text \<open>A generator with nothing registered, and an environment for a two-dimensional stencil.\<close>

definition empty_generator :: generator where
  "empty_generator =
     \<lparr> registry = [], launcher_hooks = [], kernel_hooks = [],
       hook_buffer = [], index_buffer = [], write_buffer = [],
       python_wrapper_before_buffer = [], python_wrapper_after_buffer = [] \<rparr>"

fun example_primitive_key :: "primitive \<Rightarrow> string" where
  "example_primitive_key Prim_q = ''q''"
| "example_primitive_key Prim_d = ''d''"
| "example_primitive_key Prim_e = ''e''"
| "example_primitive_key Prim_offset = ''offset''"
| "example_primitive_key Prim_index = ''index''"
| "example_primitive_key Prim_dimension = ''dimension''"

definition example_env :: native_env where
  "example_env =
     \<lparr> stencil_D = 2,
       primitive_key = example_primitive_key,
       primitive_code = (\<lambda>p. ''// '' @ example_primitive_key p),
       get_lattice_coordinate = (\<lambda>cs. ''offset('' @ join '', '' cs @ '')'') \<rparr>"

definition example_lattice :: lattice where
  "example_lattice =
     \<lparr> lattice_D = 2, lattice_e = D2Q9_e,
       lattice_w = [4 / 9, 1 / 9, 1 / 9, 1 / 9, 1 / 9, 1 / 36, 1 / 36, 1 / 36, 1 / 36] \<rparr>"

text \<open>A lattice in three dimensions with the six axis velocities, and a way to print floats.\<close>

definition example_lattice_3d :: lattice where
  "example_lattice_3d =
     \<lparr> lattice_D = 3,
       lattice_e = [[0, 0, 0], [1, 0, 0], [-1, 0, 0], [0, 1, 0], [0, -1, 0], [0, 0, 1],
                    [0, 0, -1]],
       lattice_w = [1 / 4, 1 / 8, 1 / 8, 1 / 8, 1 / 8, 1 / 8, 1 / 8] \<rparr>"

definition example_float_repr :: "real \<Rightarrow> string" where
  "example_float_repr x = (if x = 1 / 2 then ''0.5'' else if x = - 1 / 2 then ''-0.5'' else ''?'')"

definition example_transformation :: "unit moment_transformation" where
  "example_transformation =
     \<lparr> mt_names = D2Q9Lallemand_names,
       mt_transform = D2Q9Lallemand_transform,
       mt_inverse_transform = D2Q9Lallemand_inverse_transform \<rparr>"

definition example_flow :: "unit flow" where
  "example_flow =
     \<lparr> flow_f = [\<lambda>x. 1, \<lambda>x. 2, \<lambda>x. 3, \<lambda>x. 4, \<lambda>x. 5, \<lambda>x. 6, \<lambda>x. 7, \<lambda>x. 8, \<lambda>x. 9],
       flow_rho = (\<lambda>x. 45),
       flow_equilibrium = (\<lambda>r v. replicate 9 (\<lambda>x. r x / 9)) \<rparr>"


text \<open>
  A D2Q9 grid of extent \<open>(5, 3)\<close> with the mask set at the cell \<open>(0, 0)\<close> alone, and
  buffers in which every entry of \<open>f\<close> holds the first coordinate of its cell.
\<close>

definition example_kernel_args :: kernel_args where
  "example_kernel_args =
     \<lparr> kernel_q = 9, kernel_e = D2Q9_e, kernel_dimension = [5, 3], kernel_index = [4, 1],
       kernel_no_stream_mask = (\<lambda>cell. cell = [0, 0]) \<rparr>"

definition example_memory :: "int memory" where
  "example_memory =
     \<lparr> mem_f_reg = (\<lambda>i. None), mem_f = (\<lambda>a. a ! 1), mem_f_next = (\<lambda>a. - 1) \<rparr>"
section \<open>Verified properties\<close>

lemma length_three: "length xs = 3 \<Longrightarrow> \<exists>a b c. xs = [a, b, c]"
  by (auto simp: numeral_eq_Suc length_Suc_conv)

lemma length_nine:
  "length xs = 9 \<Longrightarrow> \<exists>a b c d e f g h i. xs = [a, b, c, d, e, f, g, h, i]"
  by (auto simp: numeral_eq_Suc length_Suc_conv)

lemma D1Q3Transform_left_inverse:
  "D1Q3Transform_inverse_transform (D1Q3Transform_transform [a, b, c]) = [a, b, c]"
  by (simp add: D1Q3Transform_inverse_transform_def D1Q3Transform_transform_def mv_def
      D1Q3Transform_matrix_def D1Q3Transform_inverse_def fun_eq_iff; simp add: field_simps)

lemma D2Q9Dellar_left_inverse:
  "D2Q9Dellar_inverse_transform (D2Q9Dellar_transform [a, b, c, d, e, f, g, h, i]) =
     [a, b, c, d, e, f, g, h, i]"
  by (simp add: D2Q9Dellar_inverse_transform_def D2Q9Dellar_transform_def mv_def
      D2Q9Dellar_matrix_def D2Q9Dellar_inverse_def fun_eq_iff; simp add: field_simps)

lemma D2Q9Lallemand_left_inverse:
  "D2Q9Lallemand_inverse_transform (D2Q9Lallemand_transform [a, b, c, d, e, f, g, h, i]) =
     [a, b, c, d, e, f, g, h, i]"
  by (simp add: D2Q9Lallemand_inverse_transform_def D2Q9Lallemand_transform_def mv_def
      D2Q9Lallemand_matrix_def D2Q9Lallemand_inverse_def fun_eq_iff; simp add: field_simps)

lemma D2Q9Lallemand_right_inverse:
  "D2Q9Lallemand_transform (D2Q9Lallemand_inverse_transform [a, b, c, d, e, f, g, h, i]) =
     [a, b, c, d, e, f, g, h, i]"
  by (simp add: D2Q9Lallemand_inverse_transform_def D2Q9Lallemand_transform_def mv_def
      D2Q9Lallemand_matrix_def D2Q9Lallemand_inverse_def fun_eq_iff; simp add: field_simps)

lemma D1Q3Transform_arrays_inverse:
  "matmul D1Q3Transform_inverse D1Q3Transform_matrix = eye 3"
  "matmul D1Q3Transform_matrix D1Q3Transform_inverse = eye 3"
  by (simp_all add: matmul_def column_def eye_def D1Q3Transform_matrix_def
      D1Q3Transform_inverse_def upt_conv_Cons)

lemma D2Q9Dellar_arrays_inverse:
  "matmul D2Q9Dellar_inverse D2Q9Dellar_matrix = eye 9"
  "matmul D2Q9Dellar_matrix D2Q9Dellar_inverse = eye 9"
  by (simp_all add: matmul_def column_def eye_def D2Q9Dellar_matrix_def
      D2Q9Dellar_inverse_def upt_conv_Cons)

lemma D2Q9Lallemand_arrays_inverse:
  "matmul D2Q9Lallemand_inverse D2Q9Lallemand_matrix = eye 9"
  "matmul D2Q9Lallemand_matrix D2Q9Lallemand_inverse = eye 9"
  by (simp_all add: matmul_def column_def eye_def D2Q9Lallemand_matrix_def
      D2Q9Lallemand_inverse_def upt_conv_Cons)



lemma fl64_at:
  assumes "2 powr of_int k \<le> \<bar>x\<bar>" and "\<bar>x\<bar> < 2 powr (of_int k + 1)"
  shows "fl64 x = of_int (round_half_even (x / 2 powr of_int (k - 52))) * 2 powr of_int (k - 52)"
proof -
  have pos: "0 < \<bar>x\<bar>"
    using assms(1) by (smt (verit) powr_gt_zero)
  then have "\<lfloor>log 2 \<bar>x\<bar>\<rfloor> = k"
    using assms by (simp add: floor_log_eq_powr_iff)
  with pos show ?thesis
    by (simp add: fl64_def Let_def)
qed

lemma fl64_zero: "fl64 0 = 0"
  by (simp add: fl64_def)

lemma fl64_one: "fl64 1 = 1"
  using fl64_at [of 0 1] by (simp add: round_half_even_def powr_minus powr_numeral field_simps)

lemma fl64_minus_one: "fl64 (- 1) = - 1"
  using fl64_at [of 0 "- 1"] by (simp add: round_half_even_def powr_minus powr_numeral field_simps)

lemma fl64_two_to_53: "fl64 9007199254740992 = 9007199254740992"
  using fl64_at [of 53 9007199254740992]
  by (simp add: round_half_even_def powr_numeral powr_add)

lemma fl64_two_to_53_plus_one: "fl64 9007199254740993 = 9007199254740992"
  using fl64_at [of 53 9007199254740993]
  by (simp add: round_half_even_def powr_numeral powr_add)

lemma fl64_two_to_53_minus_one: "fl64 9007199254740991 = 9007199254740991"
  using fl64_at [of 52 9007199254740991]
  by (simp add: round_half_even_def powr_numeral powr_add)

lemmas fl64_values =
  fl64_zero fl64_one fl64_minus_one fl64_two_to_53 fl64_two_to_53_plus_one
  fl64_two_to_53_minus_one

lemma D1Q3Transform_float64_transform:
  "mv_float64 D1Q3Transform_matrix [2 ^ 53, 1, 0] = [2 ^ 53, 1, 1]"
  by (simp add: mv_float64_def float64_dot_def D1Q3Transform_matrix_def fl64_values)

lemma D1Q3Transform_float64_round_trip:
  "mv_float64 D1Q3Transform_inverse (mv_float64 D1Q3Transform_matrix [2 ^ 53, 1, 0]) ! 0
     = 2 ^ 53 - 1"
  by (simp add: mv_float64_def float64_dot_def D1Q3Transform_matrix_def
      D1Q3Transform_inverse_def fl64_values)


lemma torch_where_same_length:
  "length a = length b \<Longrightarrow>
   torch_where msk a b = Inr (map2 (\<lambda>g h. (\<lambda>x. if msk x then g x else h x)) a b)"
  by (simp add: torch_where_def broadcast_def Let_def)

text \<open>
  C9. Frame of the mask boundaries: for a distribution \<open>f\<close> with one population per
  stencil direction, \<open>BounceBackBoundary.__call__\<close> and \<open>EquilibriumBoundaryPU.__call__\<close>
  return an array that equals \<open>f\<close> at every lattice point where the mask is false. At a
  masked point bounce-back returns the opposite-direction populations and the equilibrium
  boundary the precomputed equilibrium.
\<close>

theorem boundary_frame:
  assumes "length opposite = length f" and "\<forall>i\<in>set opposite. i < length f"
    and "length feq = length f"
  shows "(\<exists>f'. BounceBackBoundary_call msk opposite f = Inr f' \<and> length f' = length f
            \<and> (\<forall>q<length f. \<forall>x. \<not> msk x \<longrightarrow> (f' ! q) x = (f ! q) x)
            \<and> (\<forall>q<length f. \<forall>x. msk x \<longrightarrow> (f' ! q) x = (f ! (opposite ! q)) x))
       \<and> (\<exists>f'. EquilibriumBoundaryPU_call msk feq f = Inr f' \<and> length f' = length f
            \<and> (\<forall>q<length f. \<forall>x. \<not> msk x \<longrightarrow> (f' ! q) x = (f ! q) x)
            \<and> (\<forall>q<length f. \<forall>x. msk x \<longrightarrow> (f' ! q) x = (feq ! q) x))"
proof -
  have sel: "index_select f opposite = Inr (map (\<lambda>i. f ! i) opposite)"
    using assms(2) by (auto simp: index_select_def list_ex_iff)
  have bounce: "\<exists>f'. BounceBackBoundary_call msk opposite f = Inr f' \<and> length f' = length f
            \<and> (\<forall>q<length f. \<forall>x. \<not> msk x \<longrightarrow> (f' ! q) x = (f ! q) x)
            \<and> (\<forall>q<length f. \<forall>x. msk x \<longrightarrow> (f' ! q) x = (f ! (opposite ! q)) x)"
    using assms(1) by (simp add: BounceBackBoundary_call_def sel torch_where_same_length)
  have "\<exists>feq'. einsum_q_q feq (ones_like f) = Inr feq' \<and> length feq' = length f
            \<and> (\<forall>q<length f. \<forall>x. (feq' ! q) x = (feq ! q) x)"
    using assms(3) by (simp add: einsum_q_q_def ones_like_def broadcast_def Let_def)
  then obtain feq' where ein: "einsum_q_q feq (ones_like f) = Inr feq'"
    and len: "length feq' = length f"
    and val: "\<forall>q<length f. \<forall>x. (feq' ! q) x = (feq ! q) x"
    by blast
  have "\<exists>f'. EquilibriumBoundaryPU_call msk feq f = Inr f' \<and> length f' = length f
            \<and> (\<forall>q<length f. \<forall>x. \<not> msk x \<longrightarrow> (f' ! q) x = (f ! q) x)
            \<and> (\<forall>q<length f. \<forall>x. msk x \<longrightarrow> (f' ! q) x = (feq ! q) x)"
    using len val
    by (simp add: EquilibriumBoundaryPU_call_def ein torch_where_same_length)
  with bounce show ?thesis by blast
qed

theorem boundary_frame_witness:
  "length [0, 2, 1 :: nat] = length [\<lambda>x::nat. 1, \<lambda>x. 2, \<lambda>x. 3 :: real]
   \<and> list_all (\<lambda>i. i < length [\<lambda>x::nat. 1, \<lambda>x. 2, \<lambda>x. 3 :: real]) [0, 2, 1]
   \<and> length [\<lambda>x::nat. 5, \<lambda>x. 6, \<lambda>x. 7 :: real] = length [\<lambda>x::nat. 1, \<lambda>x. 2, \<lambda>x. 3 :: real]
   \<and> (\<exists>f'. BounceBackBoundary_call (\<lambda>x. x = 0) [0, 2, 1] [\<lambda>x::nat. 1, \<lambda>x. 2, \<lambda>x. 3] = Inr f'
         \<and> (f' ! 1) 1 = 2 \<and> (f' ! 1) 0 = 3)
   \<and> (\<exists>f'. EquilibriumBoundaryPU_call (\<lambda>x. x = 0) [\<lambda>x::nat. 5, \<lambda>x. 6, \<lambda>x. 7]
              [\<lambda>x::nat. 1, \<lambda>x. 2, \<lambda>x. 3] = Inr f'
         \<and> (f' ! 1) 1 = 2 \<and> (f' ! 1) 0 = 6)"
  using boundary_frame [of "[0, 2, 1]" "[\<lambda>x::nat. 1, \<lambda>x. 2, \<lambda>x. 3]"
      "[\<lambda>x::nat. 5, \<lambda>x. 6, \<lambda>x. 7]" "\<lambda>x. x = 0"]
  by (fastforce simp: numeral_3_eq_3 less_Suc_eq all_conj_distrib)

lemma np_max_upper: "xs \<noteq> [] \<Longrightarrow> x \<in> set xs \<Longrightarrow> x \<le> np_max xs"
  by (induction xs rule: np_max.induct) auto

lemma integer_unit_entries:
  assumes "ds \<noteq> []" and "np_max (map (\<lambda>x. \<bar>num_value x\<bar>) (map PyInt ds)) = 1"
  shows "list_all (\<lambda>d. d = 0 \<or> d = 1 \<or> d = -1) ds"
proof -
  have "d = 0 \<or> d = 1 \<or> d = -1" if "d \<in> set ds" for d
  proof -
    have "\<bar>real_of_int d\<bar> \<in> set (map (\<lambda>x. \<bar>num_value x\<bar>) (map PyInt ds))"
      using that by (auto simp: image_iff)
    from np_max_upper [OF _ this] assms have "\<bar>real_of_int d\<bar> \<le> 1"
      by simp
    then have "\<bar>d\<bar> \<le> 1" by linarith
    then show ?thesis by arith
  qed
  then show ?thesis
    by (simp add: list_all_iff)
qed

lemma sum_list_nonneg_units:
  "list_all (\<lambda>x. x = 0 \<or> x = (1::int)) xs \<Longrightarrow>
   sum_list xs = int (length (filter (\<lambda>x. x \<noteq> 0) xs))"
  by (induction xs) auto

lemma sum_list_nonpos_units:
  "list_all (\<lambda>x. x = 0 \<or> x = (-1::int)) xs \<Longrightarrow>
   sum_list xs = - int (length (filter (\<lambda>x. x \<noteq> 0) xs))"
  by (induction xs) auto

lemma sum_list_PyInt: "sum_list (map num_value (map PyInt ds)) = of_int (sum_list ds)"
  by (induction ds) auto

lemma direction_accepted_exactly_one:
  assumes "direction_accepted (map PyInt ds)"
  shows "exactly_one_unit_entry (map PyInt ds)"
proof -
  from assms have ne: "ds \<noteq> []"
    and s: "\<bar>sum_list (map num_value (map PyInt ds))\<bar> = 1"
    and m: "np_max (map (\<lambda>x. \<bar>num_value x\<bar>) (map PyInt ds)) = 1"
    and x: "list_ex (\<lambda>x. num_value x = 1) (map PyInt ds)
              \<noteq> list_ex (\<lambda>x. num_value x = -1) (map PyInt ds)"
    by (auto simp: direction_accepted_def)
  have units: "list_all (\<lambda>d. d = 0 \<or> d = 1 \<or> d = -1) ds"
    using integer_unit_entries [OF ne m] .
  from s have s': "\<bar>sum_list ds\<bar> = 1"
    unfolding sum_list_PyInt by linarith
  have one: "real_of_int d = 1 \<longleftrightarrow> d = 1" and minus_one: "real_of_int d = -1 \<longleftrightarrow> d = -1" for d
    by linarith+
  from x have x': "(1 \<in> set ds) \<noteq> (-1 \<in> set ds)"
    by (simp add: list_ex_iff one minus_one)
  have "length (filter (\<lambda>d. d \<noteq> 0) ds) = 1"
  proof (cases "1 \<in> set ds")
    case True
    with x' have "-1 \<notin> set ds" by simp
    with units have "list_all (\<lambda>x. x = 0 \<or> x = 1) ds"
      by (auto simp: list_all_iff)
    from sum_list_nonneg_units [OF this] s' show ?thesis by simp
  next
    case False
    with units have "list_all (\<lambda>x. x = 0 \<or> x = -1) ds"
      by (auto simp: list_all_iff)
    from sum_list_nonpos_units [OF this] s' show ?thesis by simp
  qed
  with units show ?thesis
    by (simp add: exactly_one_unit_entry_def filter_map comp_def list_all_iff minus_one)
qed

lemma velocities_of_init:
  assumes "AntiBounceBackOutlet_init float_repr lat direction = Inr self"
  shows "abb_velocities self = argwhere_projection_one (lattice_e lat) direction"
  using assms
  by (auto simp: AntiBounceBackOutlet_init_def Let_def split: if_splits sum.splits)

lemma rows_of_init:
  assumes "AntiBounceBackOutlet_init float_repr lat direction = Inr self"
  shows "lattice_D lat = length direction"
    and "\<not> list_ex (\<lambda>row. length row \<noteq> lattice_D lat) (lattice_e lat)"
  using assms
  by (auto simp: AntiBounceBackOutlet_init_def Let_def split: if_splits)

lemma set_argwhere:
  "set (argwhere_projection_one es direction) = {i. i < length es \<and> dot (es ! i) direction = 1}"
  by (auto simp: argwhere_projection_one_def)

lemma dot_unit_x:
  "dot [a, b] [PyInt 1, PyInt 0] = of_int a"
  "dot [a, b] [PyInt (-1), PyInt 0] = - of_int a"
  by (simp_all add: dot_def)

lemma D2Q9_init_plus:
  assumes "lattice_e lat = D2Q9_e" "lattice_D lat = 2" "length (lattice_w lat) = 9"
  shows "\<exists>a. AntiBounceBackOutlet_init float_repr lat [PyInt 1, PyInt 0] = Inr a
             \<and> abb_velocities a = [1, 5, 8]"
  using assms
  by (simp add: AntiBounceBackOutlet_init_def direction_accepted_def D2Q9_e_def
      argwhere_projection_one_def dot_def index_select_def upt_conv_Cons Let_def)

lemma D2Q9_init_minus:
  assumes "lattice_e lat = D2Q9_e" "lattice_D lat = 2" "length (lattice_w lat) = 9"
  shows "\<exists>b. AntiBounceBackOutlet_init float_repr lat [PyInt (-1), PyInt 0] = Inr b
             \<and> abb_velocities b = [3, 6, 7]"
  using assms
  by (simp add: AntiBounceBackOutlet_init_def direction_accepted_def D2Q9_e_def
      argwhere_projection_one_def dot_def index_select_def upt_conv_Cons Let_def)

lemma str_list_in_message:
  "\<exists>pre post. wrong_direction_message float_repr direction
       = pre @ str_list float_repr direction @ post"
  unfolding wrong_direction_message_def
  by (metis append.assoc)

lemma fractional_direction_accepted:
  "direction_accepted [PyInt 1, PyFloat (1 / 2), PyFloat (- 1 / 2)]"
  by (simp add: direction_accepted_def)

lemma fractional_direction_init:
  "AntiBounceBackOutlet_init float_repr example_lattice_3d
       [PyInt 1, PyFloat (1 / 2), PyFloat (- 1 / 2)]
     = Inr \<lparr> abb_velocities = [1], abb_index = [At (-1)], abb_neighbour = [At (-2)],
             abb_dims = ''dc, cxy -> dxy'', abb_w = [1 / 8] \<rparr>"
  by (simp add: AntiBounceBackOutlet_init_def direction_accepted_def
      example_lattice_3d_def argwhere_projection_one_def dot_def index_select_def
      upt_conv_Cons Let_def outlet_dims_def)

text \<open>
  C5. Validation of the outlet direction. The assert of \<open>AntiBounceBackOutlet.__init__\<close>
  accepts the list \<open>[1, 0.5, -0.5]\<close>, which has three nonzero entries, and the constructor
  then builds, on a lattice in three dimensions, an outlet whose \<open>index\<close> has a single
  entry. For lists of integers the validation does what its message says: a list that
  does not have exactly one nonzero entry, equal to 1 or -1, makes the constructor fail
  with an error whose message contains the list as Python prints it, and \<open>[1, 1]\<close> is
  such a list. On the D2Q9 lattice the directions \<open>[1, 0]\<close> and \<open>[-1, 0]\<close> are accepted
  and select the velocities 1, 5, 8 and 3, 6, 7. On any lattice where both are accepted
  they select exactly the velocities whose projection onto the direction is 1, and the
  two selections are disjoint.
\<close>

theorem outlet_direction_validation:
  "\<not> exactly_one_unit_entry [PyInt 1, PyFloat (1 / 2), PyFloat (- 1 / 2)]
   \<and> AntiBounceBackOutlet_init float_repr example_lattice_3d
         [PyInt 1, PyFloat (1 / 2), PyFloat (- 1 / 2)]
       = Inr \<lparr> abb_velocities = [1], abb_index = [At (-1)], abb_neighbour = [At (-2)],
               abb_dims = ''dc, cxy -> dxy'', abb_w = [1 / 8] \<rparr>
   \<and> (\<not> exactly_one_unit_entry (map PyInt ds) \<longrightarrow>
      (\<exists>msg pre post. AntiBounceBackOutlet_init float_repr lat (map PyInt ds)
            = Inl (AssertionError msg)
          \<and> msg = pre @ str_list float_repr (map PyInt ds) @ post))
   \<and> AntiBounceBackOutlet_init float_repr lat [PyInt 1, PyInt 1] =
        Inl (AssertionError (wrong_direction_message float_repr [PyInt 1, PyInt 1]))
   \<and> (lattice_e lat = D2Q9_e \<and> lattice_D lat = 2 \<and> length (lattice_w lat) = 9 \<longrightarrow>
        (\<exists>a b. AntiBounceBackOutlet_init float_repr lat [PyInt 1, PyInt 0] = Inr a
             \<and> AntiBounceBackOutlet_init float_repr lat [PyInt (-1), PyInt 0] = Inr b
             \<and> abb_velocities a = [1, 5, 8] \<and> abb_velocities b = [3, 6, 7]))
   \<and> (AntiBounceBackOutlet_init float_repr lat [PyInt 1, PyInt 0] = Inr a \<and>
      AntiBounceBackOutlet_init float_repr lat [PyInt (-1), PyInt 0] = Inr b \<longrightarrow>
        set (abb_velocities a)
          = {i. i < length (lattice_e lat) \<and> dot (lattice_e lat ! i) [PyInt 1, PyInt 0] = 1}
      \<and> set (abb_velocities b)
          = {i. i < length (lattice_e lat) \<and> dot (lattice_e lat ! i) [PyInt (-1), PyInt 0] = 1}
      \<and> set (abb_velocities a) \<inter> set (abb_velocities b) = {})"
proof (intro conjI impI)
  show "\<not> exactly_one_unit_entry [PyInt 1, PyFloat (1 / 2), PyFloat (- 1 / 2)]"
    by (simp add: exactly_one_unit_entry_def)
next
  show "AntiBounceBackOutlet_init float_repr example_lattice_3d
         [PyInt 1, PyFloat (1 / 2), PyFloat (- 1 / 2)]
       = Inr \<lparr> abb_velocities = [1], abb_index = [At (-1)], abb_neighbour = [At (-2)],
               abb_dims = ''dc, cxy -> dxy'', abb_w = [1 / 8] \<rparr>"
    by (rule fractional_direction_init)
next
  assume "\<not> exactly_one_unit_entry (map PyInt ds)"
  then have "\<not> direction_accepted (map PyInt ds)"
    using direction_accepted_exactly_one by blast
  then have "AntiBounceBackOutlet_init float_repr lat (map PyInt ds) =
      Inl (AssertionError (wrong_direction_message float_repr (map PyInt ds)))"
    by (simp add: AntiBounceBackOutlet_init_def)
  with str_list_in_message [of float_repr "map PyInt ds"]
  show "\<exists>msg pre post. AntiBounceBackOutlet_init float_repr lat (map PyInt ds)
            = Inl (AssertionError msg)
          \<and> msg = pre @ str_list float_repr (map PyInt ds) @ post"
    by blast
next
  show "AntiBounceBackOutlet_init float_repr lat [PyInt 1, PyInt 1] =
        Inl (AssertionError (wrong_direction_message float_repr [PyInt 1, PyInt 1]))"
    by (simp add: AntiBounceBackOutlet_init_def direction_accepted_def)
next
  assume "lattice_e lat = D2Q9_e \<and> lattice_D lat = 2 \<and> length (lattice_w lat) = 9"
  then show "\<exists>a b. AntiBounceBackOutlet_init float_repr lat [PyInt 1, PyInt 0] = Inr a
             \<and> AntiBounceBackOutlet_init float_repr lat [PyInt (-1), PyInt 0] = Inr b
             \<and> abb_velocities a = [1, 5, 8] \<and> abb_velocities b = [3, 6, 7]"
    using D2Q9_init_plus [of lat float_repr] D2Q9_init_minus [of lat float_repr] by auto
next
  assume ab: "AntiBounceBackOutlet_init float_repr lat [PyInt 1, PyInt 0] = Inr a \<and>
      AntiBounceBackOutlet_init float_repr lat [PyInt (-1), PyInt 0] = Inr b"
  then have va: "abb_velocities a = argwhere_projection_one (lattice_e lat) [PyInt 1, PyInt 0]"
    and vb: "abb_velocities b
               = argwhere_projection_one (lattice_e lat) [PyInt (-1), PyInt 0]"
    using velocities_of_init by blast+
  show "set (abb_velocities a)
      = {i. i < length (lattice_e lat) \<and> dot (lattice_e lat ! i) [PyInt 1, PyInt 0] = 1}"
    by (simp add: va set_argwhere)
  show "set (abb_velocities b)
      = {i. i < length (lattice_e lat) \<and> dot (lattice_e lat ! i) [PyInt (-1), PyInt 0] = 1}"
    by (simp add: vb set_argwhere)
  have rows: "\<not> list_ex (\<lambda>row. length row \<noteq> 2) (lattice_e lat)"
    using rows_of_init [of float_repr lat "[PyInt 1, PyInt 0]" a] ab
    by (simp add: numeral_2_eq_2)
  have "dot (lattice_e lat ! i) [PyInt (-1), PyInt 0] = - dot (lattice_e lat ! i) [PyInt 1, PyInt 0]"
    if "i < length (lattice_e lat)" for i
  proof -
    from rows that have "length (lattice_e lat ! i) = 2"
      by (auto simp: list_ex_iff)
    then obtain p q where "lattice_e lat ! i = [p, q]"
      by (auto simp: numeral_eq_Suc length_Suc_conv)
    then show ?thesis by (simp add: dot_unit_x)
  qed
  then show "set (abb_velocities a) \<inter> set (abb_velocities b) = {}"
    by (auto simp: va vb set_argwhere)
qed

lemma example_init_plus:
  "AntiBounceBackOutlet_init example_float_repr example_lattice [PyInt 1, PyInt 0] =
     Inr \<lparr> abb_velocities = [1, 5, 8], abb_index = [At (-1), SliceAll],
           abb_neighbour = [At (-2), SliceAll], abb_dims = ''dc, cx -> dx'',
           abb_w = [1 / 9, 1 / 36, 1 / 36] \<rparr>"
  by (simp add: AntiBounceBackOutlet_init_def direction_accepted_def example_lattice_def
      D2Q9_e_def argwhere_projection_one_def dot_def index_select_def upt_conv_Cons Let_def
      outlet_dims_def)

lemma example_init_minus:
  "AntiBounceBackOutlet_init example_float_repr example_lattice [PyInt (-1), PyInt 0] =
     Inr \<lparr> abb_velocities = [3, 6, 7], abb_index = [At 0, SliceAll],
           abb_neighbour = [At 1, SliceAll], abb_dims = ''dc, cx -> dx'',
           abb_w = [1 / 9, 1 / 36, 1 / 36] \<rparr>"
  by (simp add: AntiBounceBackOutlet_init_def direction_accepted_def example_lattice_def
      D2Q9_e_def argwhere_projection_one_def dot_def index_select_def upt_conv_Cons Let_def
      outlet_dims_def)

theorem outlet_direction_validation_witness:
  "\<not> exactly_one_unit_entry (map PyInt [1, 1])
   \<and> (\<exists>msg pre post. AntiBounceBackOutlet_init example_float_repr example_lattice (map PyInt [1, 1])
           = Inl (AssertionError msg)
         \<and> msg = pre @ ''[1, 1]'' @ post)
   \<and> lattice_e example_lattice = D2Q9_e
   \<and> lattice_D example_lattice = 2
   \<and> length (lattice_w example_lattice) = 9
   \<and> (\<exists>a b. AntiBounceBackOutlet_init example_float_repr example_lattice [PyInt 1, PyInt 0] = Inr a
         \<and> AntiBounceBackOutlet_init example_float_repr example_lattice [PyInt (-1), PyInt 0] = Inr b
         \<and> abb_velocities a = [1, 5, 8] \<and> abb_velocities b = [3, 6, 7]
         \<and> set (abb_velocities a) \<inter> set (abb_velocities b) = {})
   \<and> (\<exists>c. AntiBounceBackOutlet_init example_float_repr example_lattice_3d
              [PyInt 1, PyFloat (1 / 2), PyFloat (- 1 / 2)] = Inr c
         \<and> length (abb_index c) = 1)"
proof -
  let ?a = "\<lparr> abb_velocities = [1, 5, 8], abb_index = [At (-1), SliceAll],
           abb_neighbour = [At (-2), SliceAll], abb_dims = ''dc, cx -> dx'',
           abb_w = [1 / 9, 1 / 36, 1 / 36] \<rparr>"
  let ?b = "\<lparr> abb_velocities = [3, 6, 7], abb_index = [At 0, SliceAll],
           abb_neighbour = [At 1, SliceAll], abb_dims = ''dc, cx -> dx'',
           abb_w = [1 / 9, 1 / 36, 1 / 36] \<rparr>"
  note outlet = outlet_direction_validation
    [where ds = "[1, 1]" and float_repr = example_float_repr and lat = example_lattice
       and a = ?a and b = ?b]
  have bad: "\<not> exactly_one_unit_entry (map PyInt [1, 1])"
    by (simp add: exactly_one_unit_entry_def)
  have str: "str_list example_float_repr (map PyInt [1, 1]) = ''[1, 1]''"
    by (simp add: str_list_def str_int_def)
  have lat1: "lattice_e example_lattice = D2Q9_e"
    and lat2: "lattice_D example_lattice = 2"
    and lat3: "length (lattice_w example_lattice) = 9"
    by (simp_all add: example_lattice_def)
  from outlet bad have
    "\<exists>msg pre post. AntiBounceBackOutlet_init example_float_repr example_lattice (map PyInt [1, 1])
           = Inl (AssertionError msg)
         \<and> msg = pre @ str_list example_float_repr (map PyInt [1, 1]) @ post"
    by blast
  then have failing:
    "\<exists>msg pre post. AntiBounceBackOutlet_init example_float_repr example_lattice (map PyInt [1, 1])
           = Inl (AssertionError msg)
         \<and> msg = pre @ ''[1, 1]'' @ post"
    unfolding str .
  from outlet example_init_plus example_init_minus
  have "set (abb_velocities ?a) \<inter> set (abb_velocities ?b) = {}"
    by blast
  with example_init_plus example_init_minus
  have accepted: "\<exists>a b. AntiBounceBackOutlet_init example_float_repr example_lattice [PyInt 1, PyInt 0] = Inr a
         \<and> AntiBounceBackOutlet_init example_float_repr example_lattice [PyInt (-1), PyInt 0] = Inr b
         \<and> abb_velocities a = [1, 5, 8] \<and> abb_velocities b = [3, 6, 7]
         \<and> set (abb_velocities a) \<inter> set (abb_velocities b) = {}"
    by (intro exI [of _ ?a] exI [of _ ?b]) simp
  from outlet have "AntiBounceBackOutlet_init example_float_repr example_lattice_3d
         [PyInt 1, PyFloat (1 / 2), PyFloat (- 1 / 2)]
       = Inr \<lparr> abb_velocities = [1], abb_index = [At (-1)], abb_neighbour = [At (-2)],
               abb_dims = ''dc, cxy -> dxy'', abb_w = [1 / 8] \<rparr>"
    by blast
  then have fractional: "\<exists>c. AntiBounceBackOutlet_init example_float_repr example_lattice_3d
              [PyInt 1, PyFloat (1 / 2), PyFloat (- 1 / 2)] = Inr c
         \<and> length (abb_index c) = 1"
    by simp
  show ?thesis
    by (intro conjI bad failing lat1 lat2 lat3 accepted fractional)
qed

lemma list_index_Some:
  "list_index nms name = Some i \<Longrightarrow> i < length nms \<and> nms ! i = name"
  by (induction nms arbitrary: i) (auto split: if_splits)

lemma Transform_getitem_Inr:
  "Transform_getitem nms ns = Inr idx \<Longrightarrow>
   length idx = length ns \<and> (\<forall>k<length ns. idx ! k < length nms \<and> nms ! (idx ! k) = ns ! k)"
proof (induction ns arbitrary: idx)
  case Nil
  then show ?case by simp
next
  case (Cons n ns)
  from Cons.prems obtain i rest where i: "list_index nms n = Some i"
    and rest: "Transform_getitem nms ns = Inr rest" and idx: "idx = i # rest"
    by (auto split: option.splits sum.splits)
  from Cons.IH [OF rest] list_index_Some [OF i] show ?case
    by (auto simp: idx nth_Cons split: nat.splits)
qed

lemma Transform_getitem_distinct:
  assumes "Transform_getitem nms ns = Inr idx" and "distinct ns"
  shows "distinct idx"
proof -
  from Transform_getitem_Inr [OF assms(1)]
  have len: "length idx = length ns"
    and nth: "\<And>k. k < length ns \<Longrightarrow> nms ! (idx ! k) = ns ! k"
    by auto
  show ?thesis
    unfolding distinct_conv_nth
  proof (intro allI impI)
    fix i j assume "i < length idx" "j < length idx" "i \<noteq> j"
    then have "ns ! i \<noteq> ns ! j"
      using assms(2) len by (simp add: nth_eq_iff_index_eq)
    then show "idx ! i \<noteq> idx ! j"
      using nth [of i] nth [of j] \<open>i < length idx\<close> \<open>j < length idx\<close> len by auto
  qed
qed

lemma distinct_momentum_names: "distinct (momentum_names d)"
  by (simp add: momentum_names_def distinct_map inj_on_def)

lemma length_momentum_names: "length (momentum_names d) = min d 3"
  by (simp add: momentum_names_def)

lemma length_fold_update:
  "length (fold (\<lambda>(i, v) acc. acc[i := v]) ps m) = length m"
  by (induction ps arbitrary: m) auto

lemma fold_update_other:
  "i \<notin> fst ` set ps \<Longrightarrow> fold (\<lambda>(i, v) acc. acc[i := v]) ps m ! i = m ! i"
  by (induction ps arbitrary: m) (auto simp: image_iff)

lemma fold_update_hit:
  "distinct (map fst ps) \<Longrightarrow> (i, v) \<in> set ps \<Longrightarrow> i < length m \<Longrightarrow>
   fold (\<lambda>(i, v) acc. acc[i := v]) ps m ! i = v"
proof (induction ps arbitrary: m)
  case Nil
  then show ?case by simp
next
  case (Cons p ps)
  show ?case
  proof (cases "p = (i, v)")
    case True
    with Cons.prems have "i \<notin> fst ` set ps" by auto
    with True Cons.prems(3) show ?thesis
      by (simp add: fold_update_other)
  next
    case False
    with Cons.prems have "(i, v) \<in> set ps" by auto
    with Cons show ?thesis by (auto split: prod.splits)
  qed
qed

lemma index_put_same_length:
  assumes "length vals = length idx" and "distinct idx" and "\<forall>k<length idx. idx ! k < length m"
  shows "\<exists>m'. index_put m idx vals = Inr m' \<and> length m' = length m
           \<and> (\<forall>k<length idx. m' ! (idx ! k) = vals ! k)"
proof -
  have "i < length m" if "i \<in> set idx" for i
    using that assms(3) by (auto simp: in_set_conv_nth)
  then have noerr: "\<not> list_ex (\<lambda>i. length m \<le> i) idx"
    by (auto simp: list_ex_iff dest: leD)
  have bc: "broadcast vals (length idx) = Some vals"
    using assms(1) by (simp add: broadcast_def)
  have "fold (\<lambda>(i, v) acc. acc[i := v]) (zip idx vals) m ! (idx ! k) = vals ! k"
    if "k < length idx" for k
  proof (rule fold_update_hit)
    show "distinct (map fst (zip idx vals))"
      using assms(1,2) by simp
    show "(idx ! k, vals ! k) \<in> set (zip idx vals)"
      using that assms(1) by (auto simp: set_zip)
    show "idx ! k < length m"
      using that assms(3) by simp
  qed
  then show ?thesis
    by (simp add: index_put_def noerr bc length_fold_update)
qed

text \<open>
  C10. \<open>BGKInitialization\<close> keeps the velocity: when \<open>transform\<close> undoes
  \<open>inverse_transform\<close> on moment vectors, the distribution returned by \<open>__call__\<close> has,
  at the indices of the moments named \<open>jx\<close>, \<open>jy\<close>, \<open>jz\<close> (as many as the stencil has
  dimensions), the moments \<open>rho * u\<close>, with \<open>u\<close> the velocity captured at construction,
  whatever the populations of the flow are.
\<close>

theorem bgk_initialization_keeps_velocity:
  assumes init: "BGKInitialization_init tau0 u_lu rho_lu d mt = Inr self"
    and inv: "\<forall>m. length m = length (mt_names mt) \<longrightarrow>
                 mt_transform mt (mt_inverse_transform mt m) = m"
    and lenf: "length (mt_transform mt (flow_f fl)) = length (mt_names mt)"
    and leneq: "length (mt_transform mt (flow_equilibrium fl (flow_rho fl) u_lu))
                 = length (mt_names mt)"
    and d: "0 < d" "d \<le> 3" and lenu: "length u_lu = d"
    and tau0: "tau0 \<noteq> 0" "tau0 \<noteq> -1"
  shows "\<exists>f'. BGKInitialization_call self fl = Inr f'
          \<and> (\<forall>k<d. mt_names mt ! (bgk_momentum_indices self ! k) = momentum_names d ! k
                 \<and> (\<forall>x. (mt_transform mt f' ! (bgk_momentum_indices self ! k)) x
                         = flow_rho fl x * (u_lu ! k) x))"
proof -
  from init obtain idx where get: "Transform_getitem (mt_names mt) (momentum_names d) = Inr idx"
    and self: "self = \<lparr> bgk_tau = tau0, bgk_moment_transformation = mt, bgk_u = u_lu,
                        bgk_rho0 = rho_lu, bgk_momentum_indices = idx \<rparr>"
    by (auto simp: BGKInitialization_init_def split: sum.splits)
  have lend: "length (momentum_names d) = d"
    using d by (simp add: length_momentum_names)
  from Transform_getitem_Inr [OF get] lend
  have lenidx: "length idx = d"
    and inrange: "\<forall>k<d. idx ! k < length (mt_names mt)"
    and named: "\<forall>k<d. mt_names mt ! (idx ! k) = momentum_names d ! k"
    by auto
  have dist: "distinct idx"
    using Transform_getitem_distinct [OF get distinct_momentum_names] .
  let ?m = "mt_transform mt (flow_f fl)"
  let ?meq = "mt_transform mt (flow_equilibrium fl (flow_rho fl) u_lu)"
  let ?mnew0 = "map2 (\<lambda>a b. (\<lambda>x. a x - 1.0 / tau0 * (a x - b x))) ?m ?meq"
  let ?mnew1 =
    "?mnew0[0 := (\<lambda>x. (?m ! 0) x - 1.0 / (tau0 + 1) * ((?m ! 0) x - (?meq ! 0) x))]"
  let ?vals = "map (\<lambda>uk. (\<lambda>x. flow_rho fl x * uk x)) u_lu"
  have len1: "length ?mnew1 = length (mt_names mt)"
    using lenf leneq by simp
  have pos: "0 < length (mt_names mt)"
    using inrange d by fastforce
  have ne: "?mnew0 \<noteq> []"
    using lenf leneq pos by auto
  have "\<exists>m'. index_put ?mnew1 idx ?vals = Inr m' \<and> length m' = length ?mnew1
           \<and> (\<forall>k<length idx. m' ! (idx ! k) = ?vals ! k)"
  proof (rule index_put_same_length)
    show "length ?vals = length idx"
      using lenidx lenu by simp
    show "distinct idx" by fact
    show "\<forall>k<length idx. idx ! k < length ?mnew1"
      using inrange lenidx lenf leneq by simp
  qed
  then obtain m' where put: "index_put ?mnew1 idx ?vals = Inr m'"
    and lenmx: "length m' = length ?mnew1"
    and hitx: "\<forall>k<length idx. m' ! (idx ! k) = ?vals ! k"
    by blast
  have lenm': "length m' = length (mt_names mt)"
    using lenmx lenf leneq by simp
  have hit: "\<forall>k<d. m' ! (idx ! k) = (\<lambda>x. flow_rho fl x * (u_lu ! k) x)"
    using hitx lenidx lenu by simp
  have call: "BGKInitialization_call self fl = Inr (mt_inverse_transform mt m')"
    using tau0 lenf leneq ne put
    by (simp add: BGKInitialization_call_def self Let_def add_eq_0_iff2)
  have roundtrip: "mt_transform mt (mt_inverse_transform mt m') = m'"
    using inv lenm' by simp
  have idx_eq: "bgk_momentum_indices self = idx"
    by (simp add: self)
  show ?thesis
    using named hit
    by (simp add: call roundtrip idx_eq)
qed

lemma example_transformation_right_inverse:
  "\<forall>m. length m = length (mt_names example_transformation) \<longrightarrow>
       mt_transform example_transformation (mt_inverse_transform example_transformation m) = m"
proof (intro allI impI)
  fix m :: "unit tensor"
  assume "length m = length (mt_names example_transformation)"
  then have "length m = 9"
    by (simp add: example_transformation_def D2Q9Lallemand_names_def)
  from length_nine [OF this] show
    "mt_transform example_transformation (mt_inverse_transform example_transformation m) = m"
    by (auto simp: example_transformation_def D2Q9Lallemand_right_inverse)
qed

lemma example_bgk_init:
  "BGKInitialization_init 1 [\<lambda>x. 1 / 10, \<lambda>x. 0] 1 2 example_transformation =
     Inr \<lparr> bgk_tau = 1, bgk_moment_transformation = example_transformation,
           bgk_u = [\<lambda>x. 1 / 10, \<lambda>x. 0], bgk_rho0 = 1, bgk_momentum_indices = [1, 2] \<rparr>"
  by (simp add: BGKInitialization_init_def momentum_names_def example_transformation_def
      D2Q9Lallemand_names_def)

theorem bgk_initialization_keeps_velocity_witness:
  "BGKInitialization_init 1 [\<lambda>x. 1 / 10, \<lambda>x. 0] 1 2 example_transformation =
     Inr \<lparr> bgk_tau = 1, bgk_moment_transformation = example_transformation,
           bgk_u = [\<lambda>x. 1 / 10, \<lambda>x. 0], bgk_rho0 = 1, bgk_momentum_indices = [1, 2] \<rparr>
   \<and> (\<exists>f'. BGKInitialization_call
              \<lparr> bgk_tau = 1, bgk_moment_transformation = example_transformation,
                bgk_u = [\<lambda>x. 1 / 10, \<lambda>x. 0], bgk_rho0 = 1, bgk_momentum_indices = [1, 2] \<rparr>
              example_flow = Inr f'
         \<and> (D2Q9Lallemand_transform f' ! 1) () = 45 * (1 / 10)
         \<and> (D2Q9Lallemand_transform f' ! 2) () = 45 * 0)"
proof -
  have lens: "length (mt_transform example_transformation (flow_f example_flow))
        = length (mt_names example_transformation)"
    "length (mt_transform example_transformation
        (flow_equilibrium example_flow (flow_rho example_flow) [\<lambda>x. 1 / 10, \<lambda>x. 0]))
        = length (mt_names example_transformation)"
    by (simp_all add: example_transformation_def example_flow_def D2Q9Lallemand_names_def
        D2Q9Lallemand_transform_def mv_def D2Q9Lallemand_matrix_def)
  from bgk_initialization_keeps_velocity
    [OF example_bgk_init example_transformation_right_inverse lens, of]
  obtain f' where call: "BGKInitialization_call
              \<lparr> bgk_tau = 1, bgk_moment_transformation = example_transformation,
                bgk_u = [\<lambda>x. 1 / 10, \<lambda>x. 0], bgk_rho0 = 1, bgk_momentum_indices = [1, 2] \<rparr>
              example_flow = Inr f'"
    and mom: "\<forall>k<2. \<forall>x. (mt_transform example_transformation f' ! ([1, 2] ! k)) x
        = flow_rho example_flow x * ([\<lambda>x. 1 / 10, \<lambda>x. 0] ! k) x"
    by auto
  from mom [rule_format, of 0 "()"] mom [rule_format, of 1 "()"]
  have "(D2Q9Lallemand_transform f' ! 1) () = 45 * (1 / 10)"
    and "(D2Q9Lallemand_transform f' ! 2) () = 45 * 0"
    by (simp_all add: example_flow_def example_transformation_def)
  with call example_bgk_init show ?thesis
    by blast
qed

subsection \<open>The generator's operations, field by field\<close>

lemma register_fields [simp]:
  "registry (register key g) = registry g @ [key]"
  "launcher_hooks (register key g) = launcher_hooks g"
  "kernel_hooks (register key g) = kernel_hooks g"
  "hook_buffer (register key g) = hook_buffer g"
  "index_buffer (register key g) = index_buffer g"
  "write_buffer (register key g) = write_buffer g"
  "python_wrapper_before_buffer (register key g) = python_wrapper_before_buffer g"
  "python_wrapper_after_buffer (register key g) = python_wrapper_after_buffer g"
  by (simp_all add: register_def)

lemma append_hook_buffer_fields [simp]:
  "registry (append_hook_buffer it c g) = registry g"
  "launcher_hooks (append_hook_buffer it c g) = launcher_hooks g"
  "kernel_hooks (append_hook_buffer it c g) = kernel_hooks g"
  "python_wrapper_after_buffer (append_hook_buffer it c g) = python_wrapper_after_buffer g"
  by (simp_all add: append_hook_buffer_def)

lemma append_index_buffer_fields [simp]:
  "registry (append_index_buffer it c g) = registry g"
  "launcher_hooks (append_index_buffer it c g) = launcher_hooks g"
  "kernel_hooks (append_index_buffer it c g) = kernel_hooks g"
  "python_wrapper_after_buffer (append_index_buffer it c g) = python_wrapper_after_buffer g"
  by (simp_all add: append_index_buffer_def)

lemma append_write_buffer_fields [simp]:
  "registry (append_write_buffer it c g) = registry g"
  "launcher_hooks (append_write_buffer it c g) = launcher_hooks g"
  "kernel_hooks (append_write_buffer it c g) = kernel_hooks g"
  "python_wrapper_after_buffer (append_write_buffer it c g) = python_wrapper_after_buffer g"
  by (simp_all add: append_write_buffer_def)

lemma append_before_fields [simp]:
  "registry (append_python_wrapper_before_buffer it c g) = registry g"
  "launcher_hooks (append_python_wrapper_before_buffer it c g) = launcher_hooks g"
  "kernel_hooks (append_python_wrapper_before_buffer it c g) = kernel_hooks g"
  "python_wrapper_after_buffer (append_python_wrapper_before_buffer it c g)
     = python_wrapper_after_buffer g"
  by (simp_all add: append_python_wrapper_before_buffer_def)

lemma append_after_fields [simp]:
  "registry (append_python_wrapper_after_buffer it c g) = registry g"
  "launcher_hooks (append_python_wrapper_after_buffer it c g) = launcher_hooks g"
  "kernel_hooks (append_python_wrapper_after_buffer it c g) = kernel_hooks g"
  "python_wrapper_after_buffer (append_python_wrapper_after_buffer it True g)
     = python_wrapper_after_buffer g @ [it]"
  by (simp_all add: append_python_wrapper_after_buffer_def)

lemma append_index_lines_fields [simp]:
  "registry (append_index_lines ls g) = registry g"
  "launcher_hooks (append_index_lines ls g) = launcher_hooks g"
  "kernel_hooks (append_index_lines ls g) = kernel_hooks g"
  "python_wrapper_after_buffer (append_index_lines ls g) = python_wrapper_after_buffer g"
  unfolding append_index_lines_def
  by (induction ls arbitrary: g; simp add: split_def)+

lemma append_write_lines_fields [simp]:
  "registry (append_write_lines ls g) = registry g"
  "launcher_hooks (append_write_lines ls g) = launcher_hooks g"
  "kernel_hooks (append_write_lines ls g) = kernel_hooks g"
  "python_wrapper_after_buffer (append_write_lines ls g) = python_wrapper_after_buffer g"
  unfolding append_write_lines_def
  by (induction ls arbitrary: g; simp add: split_def)+

lemma generate_primitive_fields [simp]:
  "launcher_hooks (generate_primitive env p g) = launcher_hooks g"
  "kernel_hooks (generate_primitive env p g) = kernel_hooks g"
  "python_wrapper_after_buffer (generate_primitive env p g) = python_wrapper_after_buffer g"
  by (simp_all add: generate_primitive_def)

lemma generate_primitive_registered [simp]:
  "registered g key \<Longrightarrow> registered (generate_primitive env p g) key"
  by (simp add: generate_primitive_def registered_def)

lemma launcher_hook_fresh:
  "\<not> launcher_hooked g name \<Longrightarrow>
   launcher_hook name declaration argument py_value g
     = Inr (g\<lparr>launcher_hooks := launcher_hooks g @ [(name, declaration, argument, py_value)]\<rparr>)"
proof -
  assume "\<not> launcher_hooked g name"
  then have "map_of (launcher_hooks g) name = None"
    by (simp add: launcher_hooked_def map_of_eq_None_iff)
  then show ?thesis
    by (simp add: launcher_hook_def)
qed

lemma kernel_hook_fresh:
  "\<not> kernel_hooked g name \<Longrightarrow>
   kernel_hook name declaration expression g
     = Inr (g\<lparr>kernel_hooks := kernel_hooks g @ [(name, declaration, expression)]\<rparr>)"
proof -
  assume "\<not> kernel_hooked g name"
  then have "map_of (kernel_hooks g) name = None"
    by (simp add: kernel_hooked_def map_of_eq_None_iff)
  then show ?thesis
    by (simp add: kernel_hook_def)
qed

subsection \<open>The hooks of a parameter\<close>

text \<open>
  The two guarded hook calls shared by \<open>generate_no_stream_mask\<close> and \<open>generate_f_next\<close>:
  they succeed, leave the parameter hooked on both sides, and touch neither the registry
  nor the post-launch block.
\<close>

lemma hook_pair:
  "\<exists>g'. and_then
         (if \<not> launcher_hooked g name
          then launcher_hook name ldecl larg lval
                 (append_python_wrapper_before_buffer line True g)
          else Inr g)
         (\<lambda>g. if \<not> kernel_hooked g name then kernel_hook name kdecl kexpr g else Inr g)
       = Inr g'
     \<and> launcher_hooked g' name \<and> kernel_hooked g' name
     \<and> registry g' = registry g
     \<and> python_wrapper_after_buffer g' = python_wrapper_after_buffer g
     \<and> (launcher_hooked g name \<and> kernel_hooked g name \<longrightarrow> g' = g)"
proof -
  let ?g0 = "append_python_wrapper_before_buffer line True g"
  have fresh: "\<not> launcher_hooked g name \<Longrightarrow> \<not> launcher_hooked ?g0 name"
    by (simp add: launcher_hooked_def)
  show ?thesis
    by (cases "launcher_hooked g name"; cases "kernel_hooked g name")
       (simp_all add: and_then_def launcher_hook_fresh [OF fresh] kernel_hook_fresh
          launcher_hooked_def kernel_hooked_def)
qed

lemma generate_no_stream_mask_result:
  "\<exists>g'. generate_no_stream_mask g = Inr g'
       \<and> launcher_hooked g' ''no_stream_mask'' \<and> kernel_hooked g' ''no_stream_mask''
       \<and> registry g' = registry g
       \<and> python_wrapper_after_buffer g' = python_wrapper_after_buffer g
       \<and> (launcher_hooked g ''no_stream_mask'' \<and> kernel_hooked g ''no_stream_mask'' \<longrightarrow> g' = g)"
  unfolding generate_no_stream_mask_def by (rule hook_pair)

lemma generate_f_next_skip:
  "registered g ''f_next'' \<Longrightarrow> generate_f_next g = Inr g"
  by (simp add: generate_f_next_def)

lemma generate_f_next_result:
  assumes "\<not> registered g ''f_next''"
  shows "\<exists>g'. generate_f_next g = Inr g'
       \<and> registry g' = registry g @ [''f_next'']
       \<and> python_wrapper_after_buffer g' = python_wrapper_after_buffer g @
            [''simulation.f, simulation.f_next = simulation.f_next, simulation.f'']"
proof -
  let ?g0 = "append_python_wrapper_after_buffer
      ''simulation.f, simulation.f_next = simulation.f_next, simulation.f'' True
      (register ''f_next'' g)"
  from hook_pair [where g = ?g0 and name = "''f_next''" and ldecl = "''at::Tensor f_next''"
      and larg = "''f_next''" and lval = "''simulation.f_next''"
      and line = "''assert hasattr(simulation, 'f_next')''"
      and kdecl = "''scalar_t *f_next''" and kexpr = "''f_next.data<scalar_t>()''"]
  obtain g' where
    "and_then
       (if \<not> launcher_hooked ?g0 ''f_next''
        then launcher_hook ''f_next'' ''at::Tensor f_next'' ''f_next'' ''simulation.f_next''
               (append_python_wrapper_before_buffer ''assert hasattr(simulation, 'f_next')''
                  True ?g0)
        else Inr ?g0)
       (\<lambda>g. if \<not> kernel_hooked g ''f_next''
            then kernel_hook ''f_next'' ''scalar_t *f_next'' ''f_next.data<scalar_t>()'' g
            else Inr g)
     = Inr g'"
    and "registry g' = registry ?g0"
    and "python_wrapper_after_buffer g' = python_wrapper_after_buffer ?g0"
    by blast
  then show ?thesis
    using assms by (simp add: generate_f_next_def Let_def)
qed


lemma registered_simps [simp]:
  "registered (register key g) key' \<longleftrightarrow> key' = key \<or> registered g key'"
  "registered (append_index_lines ls g) key' = registered g key'"
  "registered (append_write_lines ls g) key' = registered g key'"
  by (auto simp: registered_def)

lemma registered_cong: "registry g' = registry g \<Longrightarrow> registered g' key = registered g key"
  by (simp add: registered_def)

lemma NativeNoStreaming_generate_read_write_skip:
  "registered g ''read_write()'' \<Longrightarrow> NativeNoStreaming_generate_read_write env g = Inr g"
  by (simp add: NativeNoStreaming_generate_read_write_def)

lemma NativeNoStreaming_generate_read_write_result:
  "\<exists>g'. NativeNoStreaming_generate_read_write env g = Inr g' \<and> registered g' ''read_write()''"
  by (simp add: NativeNoStreaming_generate_read_write_def Let_def)

lemma NativeStandardStreaming_generate_read_write_skip:
  "registered g ''read_write()'' \<Longrightarrow>
   NativeStandardStreaming_generate_read_write support env g = Inr g"
  by (simp add: NativeStandardStreaming_generate_read_write_def)

lemma NativeStandardStreaming_generate_read_write_result:
  "\<exists>g'. NativeStandardStreaming_generate_read_write support env g = Inr g'
       \<and> registered g' ''read_write()''
       \<and> python_wrapper_after_buffer g' =
           (if registered g ''read_write()'' \<or> registered g ''f_next''
            then python_wrapper_after_buffer g
            else python_wrapper_after_buffer g @
              [''simulation.f, simulation.f_next = simulation.f_next, simulation.f''])"
proof (cases "registered g ''read_write()''")
  case True
  then show ?thesis
    by (simp add: NativeStandardStreaming_generate_read_write_skip)
next
  case False
  let ?g1 = "register ''read_write()'' g"
  obtain g2 where step2: "(if support then generate_no_stream_mask ?g1 else Inr ?g1) = Inr g2"
    and reg2: "registry g2 = registry ?g1"
    and after2: "python_wrapper_after_buffer g2 = python_wrapper_after_buffer ?g1"
    using generate_no_stream_mask_result [of ?g1] by (cases support) auto
  have rw2: "registered g2 ''read_write()''"
    by (simp add: registered_cong [OF reg2])
  have fn2: "registered g2 ''f_next'' = registered g ''f_next''"
    by (simp add: registered_cong [OF reg2])
  obtain g3 where step3: "generate_f_next g2 = Inr g3"
    and rw3: "registered g3 ''read_write()''"
    and after3: "python_wrapper_after_buffer g3 =
           (if registered g ''f_next'' then python_wrapper_after_buffer g
            else python_wrapper_after_buffer g @
              [''simulation.f, simulation.f_next = simulation.f_next, simulation.f''])"
  proof (cases "registered g2 ''f_next''")
    case True
    with that [of g2] rw2 after2 fn2 show ?thesis
      by (simp add: generate_f_next_skip)
  next
    case False
    from generate_f_next_result [OF this] obtain g' where
      "generate_f_next g2 = Inr g'" "registry g' = registry g2 @ [''f_next'']"
      "python_wrapper_after_buffer g' = python_wrapper_after_buffer g2 @
            [''simulation.f, simulation.f_next = simulation.f_next, simulation.f'']"
      by blast
    with that [of g'] rw2 after2 fn2 False show ?thesis
      by (simp add: registered_def)
  qed
  show ?thesis
    using False step2 step3 rw3 after3
    by (simp add: NativeStandardStreaming_generate_read_write_def and_then_def Let_def)
qed

text \<open>
  C6. A fragment is emitted at most once: each \<open>generate_*\<close> method of the streaming
  components succeeds, and a second call on the generator it leaves behind changes
  nothing, neither a buffer nor the registry nor the slot table. The two
  \<open>generate_read_write\<close> methods share the key \<open>read_write()\<close>, so either one is skipped
  after the other. A method whose key is registered (for \<open>generate_no_stream_mask\<close>:
  whose parameter is hooked on both sides) returns the generator as it got it.
\<close>

theorem fragment_emitted_at_most_once:
  "(\<exists>g1. generate_no_stream_mask g = Inr g1 \<and> generate_no_stream_mask g1 = Inr g1)
   \<and> (\<exists>g1. generate_f_next g = Inr g1 \<and> generate_f_next g1 = Inr g1)
   \<and> (\<exists>g1. NativeNoStreaming_generate_read_write env g = Inr g1
          \<and> NativeNoStreaming_generate_read_write env g1 = Inr g1
          \<and> NativeStandardStreaming_generate_read_write support env g1 = Inr g1)
   \<and> (\<exists>g1. NativeStandardStreaming_generate_read_write support env g = Inr g1
          \<and> NativeStandardStreaming_generate_read_write support env g1 = Inr g1
          \<and> NativeNoStreaming_generate_read_write env g1 = Inr g1)
   \<and> (registered g ''read_write()'' \<longrightarrow>
         NativeNoStreaming_generate_read_write env g = Inr g
       \<and> NativeStandardStreaming_generate_read_write support env g = Inr g)
   \<and> (registered g ''f_next'' \<longrightarrow> generate_f_next g = Inr g)
   \<and> (launcher_hooked g ''no_stream_mask'' \<and> kernel_hooked g ''no_stream_mask'' \<longrightarrow>
         generate_no_stream_mask g = Inr g)"
proof -
  have mask: "\<exists>g1. generate_no_stream_mask g = Inr g1 \<and> generate_no_stream_mask g1 = Inr g1"
  proof -
    from generate_no_stream_mask_result [of g] obtain g1 where
      g1: "generate_no_stream_mask g = Inr g1"
      and hooked: "launcher_hooked g1 ''no_stream_mask''" "kernel_hooked g1 ''no_stream_mask''"
      by blast
    from generate_no_stream_mask_result [of g1] hooked
    have "generate_no_stream_mask g1 = Inr g1" by auto
    with g1 show ?thesis by blast
  qed
  have mask_skip: "generate_no_stream_mask g = Inr g"
    if "launcher_hooked g ''no_stream_mask'' \<and> kernel_hooked g ''no_stream_mask''"
    using generate_no_stream_mask_result [of g] that by auto
  have fnext: "\<exists>g1. generate_f_next g = Inr g1 \<and> generate_f_next g1 = Inr g1"
  proof (cases "registered g ''f_next''")
    case True
    then show ?thesis by (simp add: generate_f_next_skip)
  next
    case False
    from generate_f_next_result [OF this] obtain g1 where
      "generate_f_next g = Inr g1" "registry g1 = registry g @ [''f_next'']"
      by blast
    moreover from this have "registered g1 ''f_next''"
      by (simp add: registered_def)
    ultimately show ?thesis
      by (auto simp: generate_f_next_skip)
  qed
  have no: "\<exists>g1. NativeNoStreaming_generate_read_write env g = Inr g1
          \<and> NativeNoStreaming_generate_read_write env g1 = Inr g1
          \<and> NativeStandardStreaming_generate_read_write support env g1 = Inr g1"
    using NativeNoStreaming_generate_read_write_result [of env g]
    by (auto simp: NativeNoStreaming_generate_read_write_skip
        NativeStandardStreaming_generate_read_write_skip)
  have std: "\<exists>g1. NativeStandardStreaming_generate_read_write support env g = Inr g1
          \<and> NativeStandardStreaming_generate_read_write support env g1 = Inr g1
          \<and> NativeNoStreaming_generate_read_write env g1 = Inr g1"
    using NativeStandardStreaming_generate_read_write_result [of support env g]
    by (auto simp: NativeNoStreaming_generate_read_write_skip
        NativeStandardStreaming_generate_read_write_skip)
  show ?thesis
    using mask fnext no std mask_skip
    by (simp add: NativeNoStreaming_generate_read_write_skip
        NativeStandardStreaming_generate_read_write_skip generate_f_next_skip)
qed

theorem fragment_emitted_at_most_once_witness:
  "(\<exists>g1. NativeStandardStreaming_generate_read_write True example_env empty_generator = Inr g1
        \<and> NativeStandardStreaming_generate_read_write True example_env g1 = Inr g1
        \<and> NativeNoStreaming_generate_read_write example_env g1 = Inr g1)
   \<and> registered (register ''read_write()'' empty_generator) ''read_write()''
   \<and> NativeNoStreaming_generate_read_write example_env (register ''read_write()'' empty_generator)
        = Inr (register ''read_write()'' empty_generator)
   \<and> registered (register ''f_next'' empty_generator) ''f_next''
   \<and> generate_f_next (register ''f_next'' empty_generator)
        = Inr (register ''f_next'' empty_generator)"
  using fragment_emitted_at_most_once [of empty_generator example_env True]
    fragment_emitted_at_most_once [of "register ''read_write()'' empty_generator" example_env True]
    fragment_emitted_at_most_once [of "register ''f_next'' empty_generator" example_env True]
  by simp

subsection \<open>Successive generation runs\<close>

lemma slot_free_fields [simp]:
  "registry (slot_free g) = registry g"
  "launcher_hooks (slot_free g) = []"
  "kernel_hooks (slot_free g) = []"
  "hook_buffer (slot_free g) = hook_buffer g"
  "index_buffer (slot_free g) = index_buffer g"
  "write_buffer (slot_free g) = write_buffer g"
  "python_wrapper_before_buffer (slot_free g) = []"
  "python_wrapper_after_buffer (slot_free g) = python_wrapper_after_buffer g"
  by (simp_all add: slot_free_def)

lemma registered_slot_free [simp]: "registered (slot_free g) key = registered g key"
  by (simp add: registered_def)

lemma slot_free_operations [simp]:
  "slot_free (register key g) = register key (slot_free g)"
  "slot_free (append_hook_buffer it c g) = append_hook_buffer it c (slot_free g)"
  "slot_free (append_index_buffer it c g) = append_index_buffer it c (slot_free g)"
  "slot_free (append_write_buffer it c g) = append_write_buffer it c (slot_free g)"
  "slot_free (append_python_wrapper_after_buffer it c g)
     = append_python_wrapper_after_buffer it c (slot_free g)"
  "slot_free (append_python_wrapper_before_buffer it c g) = slot_free g"
  by (simp_all add: slot_free_def register_def append_hook_buffer_def append_index_buffer_def
        append_write_buffer_def append_python_wrapper_after_buffer_def
        append_python_wrapper_before_buffer_def)

lemma slot_free_generate_primitive [simp]:
  "slot_free (generate_primitive env p g) = generate_primitive env p (slot_free g)"
  by (simp add: generate_primitive_def)

lemma slot_free_append_index_lines [simp]:
  "slot_free (append_index_lines ls g) = append_index_lines ls (slot_free g)"
  unfolding append_index_lines_def
  by (induction ls arbitrary: g) (simp_all add: split_def)

lemma slot_free_append_write_lines [simp]:
  "slot_free (append_write_lines ls g) = append_write_lines ls (slot_free g)"
  unfolding append_write_lines_def
  by (induction ls arbitrary: g) (simp_all add: split_def)

lemma slots_of_operations [simp]:
  "python_wrapper_before_buffer (append_hook_buffer it c g) = python_wrapper_before_buffer g"
  "python_wrapper_before_buffer (append_index_buffer it c g) = python_wrapper_before_buffer g"
  "python_wrapper_before_buffer (append_write_buffer it c g) = python_wrapper_before_buffer g"
  "python_wrapper_before_buffer (append_python_wrapper_after_buffer it c g)
     = python_wrapper_before_buffer g"
  "python_wrapper_before_buffer (generate_primitive env p g) = python_wrapper_before_buffer g"
  by (simp_all add: append_hook_buffer_def append_index_buffer_def append_write_buffer_def
        append_python_wrapper_after_buffer_def generate_primitive_def)

lemma before_buffer_of_lines [simp]:
  "python_wrapper_before_buffer (append_index_lines ls g) = python_wrapper_before_buffer g"
  "python_wrapper_before_buffer (append_write_lines ls g) = python_wrapper_before_buffer g"
  unfolding append_index_lines_def append_write_lines_def
  by (induction ls arbitrary: g; simp add: split_def)+

lemma hooked_of_operations [simp]:
  "launcher_hooked (register key g) n = launcher_hooked g n"
  "kernel_hooked (register key g) n = kernel_hooked g n"
  "launcher_hooked (append_python_wrapper_after_buffer it c g) n = launcher_hooked g n"
  "kernel_hooked (append_python_wrapper_after_buffer it c g) n = kernel_hooked g n"
  "launcher_hooked (append_python_wrapper_before_buffer it c g) n = launcher_hooked g n"
  "kernel_hooked (append_python_wrapper_before_buffer it c g) n = kernel_hooked g n"
  "launcher_hooked (generate_primitive env p g) n = launcher_hooked g n"
  "kernel_hooked (generate_primitive env p g) n = kernel_hooked g n"
  "launcher_hooked (append_index_lines ls g) n = launcher_hooked g n"
  "kernel_hooked (append_index_lines ls g) n = kernel_hooked g n"
  "launcher_hooked (append_write_lines ls g) n = launcher_hooked g n"
  "kernel_hooked (append_write_lines ls g) n = kernel_hooked g n"
  by (simp_all add: launcher_hooked_def kernel_hooked_def)

text \<open>
  The two guarded hook calls once more, now with what they do to the slot table and to
  the pre-launch block: the assert is appended only when the parameter was not hooked on
  the launcher side, and nothing else of the generator changes.
\<close>

lemma hook_pair_slots:
  assumes "and_then
         (if \<not> launcher_hooked g name
          then launcher_hook name ldecl larg lval
                 (append_python_wrapper_before_buffer line True g)
          else Inr g)
         (\<lambda>g. if \<not> kernel_hooked g name then kernel_hook name kdecl kexpr g else Inr g)
       = Inr g'"
  shows "slot_free g' = slot_free g"
    and "python_wrapper_before_buffer g' =
           (if launcher_hooked g name then python_wrapper_before_buffer g
            else python_wrapper_before_buffer g @ [line])"
    and "launcher_hooked g' n \<longleftrightarrow> n = name \<or> launcher_hooked g n"
    and "kernel_hooked g' n \<longleftrightarrow> n = name \<or> kernel_hooked g n"
    and "launcher_hooked g name \<Longrightarrow> kernel_hooked g name \<Longrightarrow> g' = g"
proof -
  let ?g0 = "append_python_wrapper_before_buffer line True g"
  have fresh: "\<not> launcher_hooked g name \<Longrightarrow> \<not> launcher_hooked ?g0 name"
    by simp
  have kernel_side: "kernel_hooked (g0\<lparr>launcher_hooks := x\<rparr>) n = kernel_hooked g0 n"
    for g0 :: generator and x n
    by (simp add: kernel_hooked_def)
  have result: "g' =
    (let g1 = (if \<not> launcher_hooked g name
               then ?g0\<lparr>launcher_hooks := launcher_hooks ?g0 @ [(name, ldecl, larg, lval)]\<rparr>
               else g)
     in if \<not> kernel_hooked g name
        then g1\<lparr>kernel_hooks := kernel_hooks g1 @ [(name, kdecl, kexpr)]\<rparr> else g1)"
    using assms
    by (cases "launcher_hooked g name"; cases "kernel_hooked g name")
       (simp_all add: and_then_def launcher_hook_fresh [OF fresh] kernel_hook_fresh
          kernel_side Let_def)
  have "slot_free g' = slot_free g
    \<and> python_wrapper_before_buffer g' =
           (if launcher_hooked g name then python_wrapper_before_buffer g
            else python_wrapper_before_buffer g @ [line])
    \<and> (launcher_hooked g' n \<longleftrightarrow> n = name \<or> launcher_hooked g n)
    \<and> (kernel_hooked g' n \<longleftrightarrow> n = name \<or> kernel_hooked g n)
    \<and> (launcher_hooked g name \<and> kernel_hooked g name \<longrightarrow> g' = g)"
    unfolding result
    by (auto simp: Let_def launcher_hooked_def kernel_hooked_def slot_free_def
          append_python_wrapper_before_buffer_def)
  then show "slot_free g' = slot_free g"
    and "python_wrapper_before_buffer g' =
           (if launcher_hooked g name then python_wrapper_before_buffer g
            else python_wrapper_before_buffer g @ [line])"
    and "launcher_hooked g' n \<longleftrightarrow> n = name \<or> launcher_hooked g n"
    and "kernel_hooked g' n \<longleftrightarrow> n = name \<or> kernel_hooked g n"
    and "launcher_hooked g name \<Longrightarrow> kernel_hooked g name \<Longrightarrow> g' = g"
    by blast+
qed

lemma generate_no_stream_mask_slots:
  assumes "generate_no_stream_mask g = Inr g'"
  shows "slot_free g' = slot_free g"
    and "python_wrapper_before_buffer g' =
           (if launcher_hooked g ''no_stream_mask'' then python_wrapper_before_buffer g
            else python_wrapper_before_buffer g @
                   [''assert hasattr(simulation.streaming, 'no_stream_mask')''])"
    and "launcher_hooked g' n \<longleftrightarrow> n = ''no_stream_mask'' \<or> launcher_hooked g n"
    and "kernel_hooked g' n \<longleftrightarrow> n = ''no_stream_mask'' \<or> kernel_hooked g n"
    and "launcher_hooked g ''no_stream_mask'' \<Longrightarrow> kernel_hooked g ''no_stream_mask'' \<Longrightarrow> g' = g"
  using hook_pair_slots [OF assms [unfolded generate_no_stream_mask_def]] by blast+

lemma generate_f_next_slots:
  assumes "generate_f_next g = Inr g'" and "\<not> registered g ''f_next''"
  shows "slot_free g' =
           append_python_wrapper_after_buffer
             ''simulation.f, simulation.f_next = simulation.f_next, simulation.f'' True
             (register ''f_next'' (slot_free g))"
    and "python_wrapper_before_buffer g' =
           (if launcher_hooked g ''f_next'' then python_wrapper_before_buffer g
            else python_wrapper_before_buffer g @ [''assert hasattr(simulation, 'f_next')''])"
    and "launcher_hooked g' n \<longleftrightarrow> n = ''f_next'' \<or> launcher_hooked g n"
    and "kernel_hooked g' n \<longleftrightarrow> n = ''f_next'' \<or> kernel_hooked g n"
    and "launcher_hooked g ''f_next'' \<Longrightarrow> kernel_hooked g ''f_next'' \<Longrightarrow>
           launcher_hooks g' = launcher_hooks g \<and> kernel_hooks g' = kernel_hooks g"
proof -
  let ?g0 = "append_python_wrapper_after_buffer
      ''simulation.f, simulation.f_next = simulation.f_next, simulation.f'' True
      (register ''f_next'' g)"
  have run: "and_then
       (if \<not> launcher_hooked ?g0 ''f_next''
        then launcher_hook ''f_next'' ''at::Tensor f_next'' ''f_next'' ''simulation.f_next''
               (append_python_wrapper_before_buffer ''assert hasattr(simulation, 'f_next')''
                  True ?g0)
        else Inr ?g0)
       (\<lambda>g. if \<not> kernel_hooked g ''f_next''
            then kernel_hook ''f_next'' ''scalar_t *f_next'' ''f_next.data<scalar_t>()'' g
            else Inr g)
     = Inr g'"
    using assms by (simp add: generate_f_next_def Let_def)
  note slots = hook_pair_slots [OF run]
  from slots(1) show "slot_free g' =
           append_python_wrapper_after_buffer
             ''simulation.f, simulation.f_next = simulation.f_next, simulation.f'' True
             (register ''f_next'' (slot_free g))"
    by simp
  from slots(2) show "python_wrapper_before_buffer g' =
           (if launcher_hooked g ''f_next'' then python_wrapper_before_buffer g
            else python_wrapper_before_buffer g @ [''assert hasattr(simulation, 'f_next')''])"
    by simp
  from slots(3) show "launcher_hooked g' n \<longleftrightarrow> n = ''f_next'' \<or> launcher_hooked g n"
    by simp
  from slots(4) show "kernel_hooked g' n \<longleftrightarrow> n = ''f_next'' \<or> kernel_hooked g n"
    by simp
  show "launcher_hooks g' = launcher_hooks g \<and> kernel_hooks g' = kernel_hooks g"
    if "launcher_hooked g ''f_next''" "kernel_hooked g ''f_next''"
  proof -
    from that have "g' = ?g0"
      by (intro slots(5)) simp_all
    then show ?thesis
      by simp
  qed
qed

text \<open>The steps of \<open>generate_read_write\<close> of standard streaming when its key is free.\<close>

lemma NativeStandardStreaming_generate_read_write_steps:
  assumes "NativeStandardStreaming_generate_read_write support env g = Inr g'"
    and "\<not> registered g ''read_write()''"
  obtains g2 g3 where
    "(if support then generate_no_stream_mask (register ''read_write()'' g)
      else Inr (register ''read_write()'' g)) = Inr g2"
    and "generate_f_next g2 = Inr g3"
    and "g' =
      append_write_lines
        (standard_streaming_write_lines support (stencil_D env)
           (get_lattice_coordinate env (take (stencil_D env + 1) [''q_'', ''x_'', ''y_'', ''z_'']))
           (get_lattice_coordinate env
              (take (stencil_D env) [''index[0]'', ''index[1]'', ''index[2]''])))
        (append_index_lines
           (standard_streaming_read_lines (stencil_D env)
              (get_lattice_coordinate env
                 (take (stencil_D env + 1) [''q_'', ''x_'', ''y_'', ''z_''])))
           (generate_primitive env Prim_e (generate_primitive env Prim_q
              (generate_primitive env Prim_dimension (generate_primitive env Prim_index
                 (generate_primitive env Prim_offset g3))))))"
  using assms
  by (auto simp: NativeStandardStreaming_generate_read_write_def and_then_def Let_def
        split: sum.splits)

lemma NativeStandardStreaming_slots:
  assumes run: "NativeStandardStreaming_generate_read_write support env g = Inr g'"
    and rw: "\<not> registered g ''read_write()''" and fn: "\<not> registered g ''f_next''"
  shows "slot_free g' =
      append_write_lines
        (standard_streaming_write_lines support (stencil_D env)
           (get_lattice_coordinate env (take (stencil_D env + 1) [''q_'', ''x_'', ''y_'', ''z_'']))
           (get_lattice_coordinate env
              (take (stencil_D env) [''index[0]'', ''index[1]'', ''index[2]''])))
        (append_index_lines
           (standard_streaming_read_lines (stencil_D env)
              (get_lattice_coordinate env
                 (take (stencil_D env + 1) [''q_'', ''x_'', ''y_'', ''z_''])))
           (generate_primitive env Prim_e (generate_primitive env Prim_q
              (generate_primitive env Prim_dimension (generate_primitive env Prim_index
                 (generate_primitive env Prim_offset
                    (append_python_wrapper_after_buffer
                       ''simulation.f, simulation.f_next = simulation.f_next, simulation.f''
                       True
                       (register ''f_next'' (register ''read_write()'' (slot_free g))))))))))"
    and "python_wrapper_before_buffer g' =
           python_wrapper_before_buffer g
           @ (if support \<and> \<not> launcher_hooked g ''no_stream_mask''
              then [''assert hasattr(simulation.streaming, 'no_stream_mask')''] else [])
           @ (if launcher_hooked g ''f_next'' then []
              else [''assert hasattr(simulation, 'f_next')''])"
    and "launcher_hooked g' n \<longleftrightarrow>
           n = ''f_next'' \<or> support \<and> n = ''no_stream_mask'' \<or> launcher_hooked g n"
    and "kernel_hooked g' n \<longleftrightarrow>
           n = ''f_next'' \<or> support \<and> n = ''no_stream_mask'' \<or> kernel_hooked g n"
    and "launcher_hooked g ''f_next'' \<Longrightarrow> kernel_hooked g ''f_next'' \<Longrightarrow>
         (support \<Longrightarrow> launcher_hooked g ''no_stream_mask'') \<Longrightarrow>
         (support \<Longrightarrow> kernel_hooked g ''no_stream_mask'') \<Longrightarrow>
           launcher_hooks g' = launcher_hooks g \<and> kernel_hooks g' = kernel_hooks g"
proof -
  let ?g1 = "register ''read_write()'' g"
  from NativeStandardStreaming_generate_read_write_steps [OF run rw] obtain g2 g3 where
    step2: "(if support then generate_no_stream_mask ?g1 else Inr ?g1) = Inr g2"
    and step3: "generate_f_next g2 = Inr g3"
    and tail: "g' =
      append_write_lines
        (standard_streaming_write_lines support (stencil_D env)
           (get_lattice_coordinate env (take (stencil_D env + 1) [''q_'', ''x_'', ''y_'', ''z_'']))
           (get_lattice_coordinate env
              (take (stencil_D env) [''index[0]'', ''index[1]'', ''index[2]''])))
        (append_index_lines
           (standard_streaming_read_lines (stencil_D env)
              (get_lattice_coordinate env
                 (take (stencil_D env + 1) [''q_'', ''x_'', ''y_'', ''z_''])))
           (generate_primitive env Prim_e (generate_primitive env Prim_q
              (generate_primitive env Prim_dimension (generate_primitive env Prim_index
                 (generate_primitive env Prim_offset g3))))))"
    by blast
  have two:
    "slot_free g2 = slot_free ?g1
     \<and> python_wrapper_before_buffer g2 =
         python_wrapper_before_buffer g
         @ (if support \<and> \<not> launcher_hooked g ''no_stream_mask''
            then [''assert hasattr(simulation.streaming, 'no_stream_mask')''] else [])
     \<and> (\<forall>n. launcher_hooked g2 n \<longleftrightarrow> support \<and> n = ''no_stream_mask'' \<or> launcher_hooked g n)
     \<and> (\<forall>n. kernel_hooked g2 n \<longleftrightarrow> support \<and> n = ''no_stream_mask'' \<or> kernel_hooked g n)
     \<and> ((support \<longrightarrow> launcher_hooked g ''no_stream_mask'' \<and> kernel_hooked g ''no_stream_mask'')
          \<longrightarrow> g2 = ?g1)"
  proof (cases support)
    case True
    with step2 have m: "generate_no_stream_mask ?g1 = Inr g2"
      by simp
    from generate_no_stream_mask_slots [OF m] True show ?thesis
      by simp
  next
    case False
    with step2 show ?thesis
      by auto
  qed
  have fn2: "\<not> registered g2 ''f_next''"
  proof -
    from two have "registry g2 = registry ?g1"
      by (metis slot_free_fields(1))
    with fn show ?thesis
      by (simp add: registered_def)
  qed
  note three = generate_f_next_slots [OF step3 fn2]
  from three(1) two show "slot_free g' =
      append_write_lines
        (standard_streaming_write_lines support (stencil_D env)
           (get_lattice_coordinate env (take (stencil_D env + 1) [''q_'', ''x_'', ''y_'', ''z_'']))
           (get_lattice_coordinate env
              (take (stencil_D env) [''index[0]'', ''index[1]'', ''index[2]''])))
        (append_index_lines
           (standard_streaming_read_lines (stencil_D env)
              (get_lattice_coordinate env
                 (take (stencil_D env + 1) [''q_'', ''x_'', ''y_'', ''z_''])))
           (generate_primitive env Prim_e (generate_primitive env Prim_q
              (generate_primitive env Prim_dimension (generate_primitive env Prim_index
                 (generate_primitive env Prim_offset
                    (append_python_wrapper_after_buffer
                       ''simulation.f, simulation.f_next = simulation.f_next, simulation.f''
                       True
                       (register ''f_next'' (register ''read_write()'' (slot_free g))))))))))"
    unfolding tail by simp
  from three(2) two show "python_wrapper_before_buffer g' =
           python_wrapper_before_buffer g
           @ (if support \<and> \<not> launcher_hooked g ''no_stream_mask''
              then [''assert hasattr(simulation.streaming, 'no_stream_mask')''] else [])
           @ (if launcher_hooked g ''f_next'' then []
              else [''assert hasattr(simulation, 'f_next')''])"
    unfolding tail by simp
  from three(3) [of n] two show "launcher_hooked g' n \<longleftrightarrow>
           n = ''f_next'' \<or> support \<and> n = ''no_stream_mask'' \<or> launcher_hooked g n"
    unfolding tail by simp
  from three(4) [of n] two show "kernel_hooked g' n \<longleftrightarrow>
           n = ''f_next'' \<or> support \<and> n = ''no_stream_mask'' \<or> kernel_hooked g n"
    unfolding tail by simp
  show "launcher_hooks g' = launcher_hooks g \<and> kernel_hooks g' = kernel_hooks g"
    if "launcher_hooked g ''f_next''" "kernel_hooked g ''f_next''"
      "support \<Longrightarrow> launcher_hooked g ''no_stream_mask''"
      "support \<Longrightarrow> kernel_hooked g ''no_stream_mask''"
  proof -
    from two that have g2: "g2 = ?g1"
      by blast
    with that have "launcher_hooks g3 = launcher_hooks g2 \<and> kernel_hooks g3 = kernel_hooks g2"
      by (intro three(5)) simp_all
    with g2 show ?thesis
      unfolding tail by simp
  qed
qed

lemma generate_read_write_succeeds:
  "\<exists>g'. generate_read_write streaming env g = Inr g'"
proof (cases streaming)
  case NativeNoStreaming
  then show ?thesis
    using NativeNoStreaming_generate_read_write_result [of env g] by auto
next
  case (NativeStandardStreaming support)
  then show ?thesis
    using NativeStandardStreaming_generate_read_write_result [of support env g] by auto
qed

lemma reset_fields [simp]:
  "registry (reset g) = []"
  "launcher_hooks (reset g) = launcher_hooks g"
  "kernel_hooks (reset g) = kernel_hooks g"
  "hook_buffer (reset g) = []"
  "index_buffer (reset g) = []"
  "write_buffer (reset g) = []"
  "python_wrapper_before_buffer (reset g) = []"
  "python_wrapper_after_buffer (reset g) = []"
  by (simp_all add: reset_def)

lemma reset_hooked [simp]:
  "launcher_hooked (reset g) n = launcher_hooked g n"
  "kernel_hooked (reset g) n = kernel_hooked g n"
  "\<not> registered (reset g) key"
  by (simp_all add: launcher_hooked_def kernel_hooked_def registered_def)

lemma reset_determined:
  "launcher_hooks a = launcher_hooks b \<Longrightarrow> kernel_hooks a = kernel_hooks b \<Longrightarrow>
   reset a = reset b"
  by (cases a; cases b) (simp add: reset_def)

lemma slot_free_reset: "slot_free (reset a) = slot_free (reset b)"
  by (cases a; cases b) (simp add: reset_def slot_free_def)

lemma slot_free_determines:
  assumes "slot_free a = slot_free b"
  shows "registry a = registry b \<and> hook_buffer a = hook_buffer b
    \<and> index_buffer a = index_buffer b \<and> write_buffer a = write_buffer b
    \<and> python_wrapper_after_buffer a = python_wrapper_after_buffer b"
  using assms by (cases a; cases b) (simp add: slot_free_def)

lemma NativeNoStreaming_slots:
  assumes "NativeNoStreaming_generate_read_write env g = Inr g'"
    and "\<not> registered g ''read_write()''"
  shows "slot_free g' =
      append_write_lines
        (no_streaming_write_lines (stencil_D env)
           (get_lattice_coordinate env (take (stencil_D env + 1) [''q_'', ''x_'', ''y_'', ''z_''])))
        (append_index_lines
           (no_streaming_read_lines (stencil_D env)
              (get_lattice_coordinate env
                 (take (stencil_D env + 1) [''q_'', ''x_'', ''y_'', ''z_''])))
           (generate_primitive env Prim_offset (generate_primitive env Prim_d
              (generate_primitive env Prim_q (register ''read_write()'' (slot_free g))))))"
    and "launcher_hooks g' = launcher_hooks g"
    and "kernel_hooks g' = kernel_hooks g"
    and "python_wrapper_before_buffer g' = python_wrapper_before_buffer g"
  using assms by (auto simp: NativeNoStreaming_generate_read_write_def Let_def)

text \<open>
  Two successive runs of the streaming component, each from a reset generator: the second
  finds the parameters of the first in the slot table.
\<close>

lemma successive_runs:
  assumes run1: "generate_read_write streaming env (reset g) = Inr g1"
    and run2: "generate_read_write streaming env (reset g1) = Inr g2"
  shows "slot_free g2 = slot_free g1"
    and "launcher_hooks g2 = launcher_hooks g1"
    and "kernel_hooks g2 = kernel_hooks g1"
    and "python_wrapper_before_buffer g2 = []"
proof -
  have "slot_free g2 = slot_free g1 \<and> launcher_hooks g2 = launcher_hooks g1
      \<and> kernel_hooks g2 = kernel_hooks g1 \<and> python_wrapper_before_buffer g2 = []"
  proof (cases streaming)
    case NativeNoStreaming
    with run1 have r1: "NativeNoStreaming_generate_read_write env (reset g) = Inr g1"
      by simp
    from NativeNoStreaming run2
    have r2: "NativeNoStreaming_generate_read_write env (reset g1) = Inr g2"
      by simp
    note first = NativeNoStreaming_slots [OF r1 reset_hooked(3)]
    note second = NativeNoStreaming_slots [OF r2 reset_hooked(3)]
    have "slot_free g2 = slot_free g1"
      unfolding first(1) second(1) slot_free_reset [of g1 g] ..
    with second(2-4) show ?thesis
      by simp
  next
    case (NativeStandardStreaming support)
    with run1 have r1: "NativeStandardStreaming_generate_read_write support env (reset g) = Inr g1"
      by simp
    from NativeStandardStreaming run2
    have r2: "NativeStandardStreaming_generate_read_write support env (reset g1) = Inr g2"
      by simp
    note first = NativeStandardStreaming_slots [OF r1 reset_hooked(3) reset_hooked(3)]
    note second = NativeStandardStreaming_slots [OF r2 reset_hooked(3) reset_hooked(3)]
    have hooked: "launcher_hooked (reset g1) ''f_next''" "kernel_hooked (reset g1) ''f_next''"
      "support \<Longrightarrow> launcher_hooked (reset g1) ''no_stream_mask''"
      "support \<Longrightarrow> kernel_hooked (reset g1) ''no_stream_mask''"
      using first(3) [of "''f_next''"] first(4) [of "''f_next''"]
        first(3) [of "''no_stream_mask''"] first(4) [of "''no_stream_mask''"]
      by simp_all
    have "slot_free g2 = slot_free g1"
      unfolding first(1) second(1) slot_free_reset [of g1 g] ..
    moreover from second(5) [OF hooked]
    have "launcher_hooks g2 = launcher_hooks g1 \<and> kernel_hooks g2 = kernel_hooks g1"
      by simp
    moreover from second(2) hooked have "python_wrapper_before_buffer g2 = []"
      by simp
    ultimately show ?thesis
      by simp
  qed
  then show "slot_free g2 = slot_free g1"
    and "launcher_hooks g2 = launcher_hooks g1"
    and "kernel_hooks g2 = kernel_hooks g1"
    and "python_wrapper_before_buffer g2 = []"
    by simp_all
qed




text \<open>
  C8. The swap of \<open>f\<close> and \<open>f_next\<close>: when \<open>f_next\<close> is not registered yet,
  \<open>generate_f_next\<close> appends the swap statement to the post-launch block, once, and a
  further call appends nothing; so does \<open>generate_read_write\<close> of standard streaming. A
  generation run with standard streaming ends with exactly one swap statement in the
  post-launch block. Run by the wrapper, the statement exchanges the two references
  and leaves the stored buffers as they are.
\<close>

theorem f_next_swap_appended_once:
  "(\<not> registered g ''f_next'' \<longrightarrow>
      (\<exists>g1. generate_f_next g = Inr g1
         \<and> python_wrapper_after_buffer g1 = python_wrapper_after_buffer g @
              [''simulation.f, simulation.f_next = simulation.f_next, simulation.f'']
         \<and> generate_f_next g1 = Inr g1))
   \<and> (registered g ''f_next'' \<longrightarrow> generate_f_next g = Inr g)
   \<and> (\<not> registered g ''read_write()'' \<and> \<not> registered g ''f_next'' \<longrightarrow>
      (\<exists>g1. NativeStandardStreaming_generate_read_write support env g = Inr g1
         \<and> python_wrapper_after_buffer g1 = python_wrapper_after_buffer g @
              [''simulation.f, simulation.f_next = simulation.f_next, simulation.f'']
         \<and> NativeStandardStreaming_generate_read_write support env g1 = Inr g1))
   \<and> (\<exists>g1. generate env [] (NativeStandardStreaming support) g = Inr g1
         \<and> python_wrapper_after_buffer g1 =
              [''simulation.f, simulation.f_next = simulation.f_next, simulation.f'']
         \<and> count_list (python_wrapper_after_buffer g1)
              ''simulation.f, simulation.f_next = simulation.f_next, simulation.f'' = 1
         \<and> NativeStandardStreaming_generate_read_write support env g1 = Inr g1)
   \<and> sim_f (exchange_f_and_f_next sim) = sim_f_next sim
   \<and> sim_f_next (exchange_f_and_f_next sim) = sim_f sim
   \<and> sim_store (exchange_f_and_f_next sim) = sim_store sim"
proof -
  have a: "\<exists>g1. generate_f_next g = Inr g1
         \<and> python_wrapper_after_buffer g1 = python_wrapper_after_buffer g @
              [''simulation.f, simulation.f_next = simulation.f_next, simulation.f'']
         \<and> generate_f_next g1 = Inr g1" if "\<not> registered g ''f_next''"
  proof -
    from generate_f_next_result [OF that] obtain g1 where
      g1: "generate_f_next g = Inr g1" "registry g1 = registry g @ [''f_next'']"
      "python_wrapper_after_buffer g1 = python_wrapper_after_buffer g @
            [''simulation.f, simulation.f_next = simulation.f_next, simulation.f'']"
      by blast
    then have "registered g1 ''f_next''"
      by (simp add: registered_def)
    with g1 show ?thesis
      by (auto simp: generate_f_next_skip)
  qed
  have b: "\<exists>g1. NativeStandardStreaming_generate_read_write support env g0 = Inr g1
         \<and> python_wrapper_after_buffer g1 = python_wrapper_after_buffer g0 @
              [''simulation.f, simulation.f_next = simulation.f_next, simulation.f'']
         \<and> NativeStandardStreaming_generate_read_write support env g1 = Inr g1"
    if "\<not> registered g0 ''read_write()'' \<and> \<not> registered g0 ''f_next''" for g0
    using NativeStandardStreaming_generate_read_write_result [of support env g0] that
    by (auto simp: NativeStandardStreaming_generate_read_write_skip)
  have fresh: "\<not> registered (reset g) ''read_write()'' \<and> \<not> registered (reset g) ''f_next''"
    by (simp add: reset_def registered_def)
  have after0: "python_wrapper_after_buffer (reset g) = []"
    by (simp add: reset_def)
  have c: "\<exists>g1. generate env [] (NativeStandardStreaming support) g = Inr g1
         \<and> python_wrapper_after_buffer g1 =
              [''simulation.f, simulation.f_next = simulation.f_next, simulation.f'']
         \<and> count_list (python_wrapper_after_buffer g1)
              ''simulation.f, simulation.f_next = simulation.f_next, simulation.f'' = 1
         \<and> NativeStandardStreaming_generate_read_write support env g1 = Inr g1"
    using b [OF fresh] after0
    by (auto simp: generate_def and_then_def)
  show ?thesis
    using a b [of g] c by (simp add: generate_f_next_skip exchange_f_and_f_next_def)
qed

theorem f_next_swap_appended_once_witness:
  "\<not> registered empty_generator ''f_next''
   \<and> (\<exists>g1. generate_f_next empty_generator = Inr g1
         \<and> python_wrapper_after_buffer g1 =
              [''simulation.f, simulation.f_next = simulation.f_next, simulation.f'']
         \<and> generate_f_next g1 = Inr g1)
   \<and> registered (register ''f_next'' empty_generator) ''f_next''
   \<and> generate_f_next (register ''f_next'' empty_generator) = Inr (register ''f_next'' empty_generator)
   \<and> (\<exists>g1. NativeStandardStreaming_generate_read_write True example_env empty_generator = Inr g1
         \<and> python_wrapper_after_buffer g1 =
              [''simulation.f, simulation.f_next = simulation.f_next, simulation.f''])
   \<and> sim_f (exchange_f_and_f_next \<lparr> sim_f = 1, sim_f_next = 2, sim_store = (\<lambda>r. r + 10) \<rparr>) = 2"
proof -
  have fresh: "\<not> registered empty_generator ''f_next''"
    "\<not> registered empty_generator ''read_write()''"
    "python_wrapper_after_buffer empty_generator = []"
    by (simp_all add: empty_generator_def registered_def)
  have reg: "registered (register ''f_next'' empty_generator) ''f_next''"
    by simp
  show ?thesis
    using f_next_swap_appended_once [of empty_generator True example_env
        "\<lparr> sim_f = 1, sim_f_next = 2, sim_store = (\<lambda>r. r + 10) \<rparr>"]
      f_next_swap_appended_once [of "register ''f_next'' empty_generator" True example_env
        "\<lparr> sim_f = 1, sim_f_next = 2, sim_store = (\<lambda>r. r + 10) \<rparr>"]
      fresh reg
    by auto
qed

subsection \<open>The blocks that standard streaming emits\<close>

lemma buffer_fields [simp]:
  "index_buffer (append_hook_buffer it c g) = index_buffer g"
  "write_buffer (append_hook_buffer it c g) = write_buffer g"
  "index_buffer (append_python_wrapper_after_buffer it c g) = index_buffer g"
  "write_buffer (append_python_wrapper_after_buffer it c g) = write_buffer g"
  "index_buffer (generate_primitive env p g) = index_buffer g"
  "write_buffer (generate_primitive env p g) = write_buffer g"
  by (simp_all add: append_hook_buffer_def append_python_wrapper_after_buffer_def
        generate_primitive_def)

lemma append_lines_buffers [simp]:
  "index_buffer (append_index_lines ls g) = index_buffer g @ map fst (filter snd ls)"
  "write_buffer (append_index_lines ls g) = write_buffer g"
  "index_buffer (append_write_lines ls g) = index_buffer g"
  "write_buffer (append_write_lines ls g) = write_buffer g @ map fst (filter snd ls)"
  unfolding append_index_lines_def append_write_lines_def
  by (induction ls arbitrary: g;
      simp add: split_def append_index_buffer_def append_write_buffer_def)+

lemma NativeStandardStreaming_buffers:
  assumes run: "NativeStandardStreaming_generate_read_write support env g = Inr g'"
    and rw: "\<not> registered g ''read_write()''"
  shows "index_buffer g' = index_buffer g @
           map fst (filter snd (standard_streaming_read_lines (stencil_D env)
             (get_lattice_coordinate env
                (take (stencil_D env + 1) [''q_'', ''x_'', ''y_'', ''z_'']))))"
    and "write_buffer g' = write_buffer g @
           map fst (filter snd (standard_streaming_write_lines support (stencil_D env)
             (get_lattice_coordinate env
                (take (stencil_D env + 1) [''q_'', ''x_'', ''y_'', ''z_'']))
             (get_lattice_coordinate env
                (take (stencil_D env) [''index[0]'', ''index[1]'', ''index[2]'']))))"
proof -
  let ?g1 = "register ''read_write()'' g"
  from NativeStandardStreaming_generate_read_write_steps [OF run rw] obtain g2 g3 where
    step2: "(if support then generate_no_stream_mask ?g1 else Inr ?g1) = Inr g2"
    and step3: "generate_f_next g2 = Inr g3"
    and tail: "g' =
      append_write_lines
        (standard_streaming_write_lines support (stencil_D env)
           (get_lattice_coordinate env (take (stencil_D env + 1) [''q_'', ''x_'', ''y_'', ''z_'']))
           (get_lattice_coordinate env
              (take (stencil_D env) [''index[0]'', ''index[1]'', ''index[2]''])))
        (append_index_lines
           (standard_streaming_read_lines (stencil_D env)
              (get_lattice_coordinate env
                 (take (stencil_D env + 1) [''q_'', ''x_'', ''y_'', ''z_''])))
           (generate_primitive env Prim_e (generate_primitive env Prim_q
              (generate_primitive env Prim_dimension (generate_primitive env Prim_index
                 (generate_primitive env Prim_offset g3))))))"
    by blast
  have "slot_free g2 = slot_free ?g1"
  proof (cases support)
    case True
    with step2 have "generate_no_stream_mask ?g1 = Inr g2"
      by simp
    then show ?thesis
      by (rule generate_no_stream_mask_slots(1))
  next
    case False
    with step2 show ?thesis
      by simp
  qed
  from slot_free_determines [OF this]
  have two: "index_buffer g2 = index_buffer g" "write_buffer g2 = write_buffer g"
    by simp_all
  have three: "index_buffer g3 = index_buffer g2 \<and> write_buffer g3 = write_buffer g2"
  proof (cases "registered g2 ''f_next''")
    case True
    with step3 show ?thesis
      by (simp add: generate_f_next_skip)
  next
    case False
    from generate_f_next_slots(1) [OF step3 False]
    have "index_buffer (slot_free g3) = index_buffer g2
        \<and> write_buffer (slot_free g3) = write_buffer g2"
      by simp
    then show ?thesis
      by simp
  qed
  from two three show "index_buffer g' = index_buffer g @
           map fst (filter snd (standard_streaming_read_lines (stencil_D env)
             (get_lattice_coordinate env
                (take (stencil_D env + 1) [''q_'', ''x_'', ''y_'', ''z_'']))))"
    unfolding tail by simp
  from two three show "write_buffer g' = write_buffer g @
           map fst (filter snd (standard_streaming_write_lines support (stencil_D env)
             (get_lattice_coordinate env
                (take (stencil_D env + 1) [''q_'', ''x_'', ''y_'', ''z_'']))
             (get_lattice_coordinate env
                (take (stencil_D env) [''index[0]'', ''index[1]'', ''index[2]'']))))"
    unfolding tail by simp
qed

subsection \<open>Running a block\<close>

lemma upt_small:
  "[0..<Suc 0] = [0]" "[0..<2] = [0, 1]" "[0..<3] = [0, 1, 2]"
  by (simp_all add: upt_conv_Cons)

lemma for_loop_fold:
  assumes step: "\<And>i mem. i \<in> set rest \<Longrightarrow> P mem \<Longrightarrow>
                   run_iteration args body i mem = Some (upd i mem)"
    and keeps: "\<And>i mem. P mem \<Longrightarrow> P (upd i mem)"
    and start: "P mem"
  shows "for_loop args body rest mem = Some (fold upd rest mem)"
  using step start
proof (induction rest arbitrary: mem)
  case Nil
  then show ?case by simp
next
  case (Cons i rest)
  from Cons.prems have "run_iteration args body i mem = Some (upd i mem)"
    by simp
  moreover from Cons.prems keeps
  have "for_loop args body rest (upd i mem) = Some (fold upd rest (upd i mem))"
    by (intro Cons.IH) simp_all
  ultimately show ?case
    by simp
qed

lemma fold_store:
  "fold (\<lambda>i mem. mem\<lparr>mem_f_next := (mem_f_next mem)(a i := v i)\<rparr>) rest mem
     = mem\<lparr>mem_f_next := fold (\<lambda>i fn. fn(a i := v i)) rest (mem_f_next mem)\<rparr>"
  by (induction rest arbitrary: mem) simp_all

lemma fold_load:
  "fold (\<lambda>i mem. mem\<lparr>mem_f_reg := (mem_f_reg mem)(i \<mapsto> v i)\<rparr>) rest mem
     = mem\<lparr>mem_f_reg := fold (\<lambda>i rg. rg(i \<mapsto> v i)) rest (mem_f_reg mem)\<rparr>"
  by (induction rest arbitrary: mem) simp_all

text \<open>What the stores of a loop leave: the last store to a location.\<close>

lemma stores_apply:
  "fold (\<lambda>i fn. fn((int i # t i) := v i)) [0..<n] fn0 a
     = (if \<exists>i<n. a = int i # t i then v (nat (hd a)) else fn0 a)"
proof (induction n)
  case 0
  then show ?case by simp
next
  case (Suc n)
  show ?case
  proof (cases "a = int n # t n")
    case True
    then show ?thesis
      by auto
  next
    case False
    then have "(\<exists>i<Suc n. a = int i # t i) \<longleftrightarrow> (\<exists>i<n. a = int i # t i)"
      by (auto simp: less_Suc_eq)
    with False Suc show ?thesis
      by simp
  qed
qed

lemma loads_apply:
  "fold (\<lambda>i rg. rg(i \<mapsto> v i)) [0..<n] rg0 j = (if j < n then Some (v j) else rg0 j)"
  by (induction n) (auto simp: less_Suc_eq)

lemma run_block_shape:
  assumes "those (map (statement_of env) lines)
             = Some (before @ For_each_direction # body @ Close_brace # after)"
    and "For_each_direction \<notin> set before"
    and "loop_body (body @ Close_brace # after) 0 = Some (body, after)"
    and "run_outside before mem = Some mem1"
    and "for_loop args body [0..<kernel_q args] mem1 = Some mem2"
    and "run_outside after mem2 = Some mem3"
  shows "run_block env args lines mem = Some mem3"
proof -
  have drop: "dropWhile (\<lambda>s. s \<noteq> For_each_direction)
                (before @ For_each_direction # body @ Close_brace # after)
              = For_each_direction # body @ Close_brace # after"
    using assms(2) by (auto simp: dropWhile_append3)
  have take: "takeWhile (\<lambda>s. s \<noteq> For_each_direction)
                (before @ For_each_direction # body @ Close_brace # after) = before"
    using assms(2) by (subst takeWhile_append2) auto
  show ?thesis
    unfolding run_block_def assms(1) option.case drop take
    by (simp add: assms(3-6))
qed

lemma long_enough:
  fixes xs :: "'b list"
  assumes "n \<le> length xs"
  shows "(0 < n \<longrightarrow> xs \<noteq> []) \<and> (Suc 0 < n \<longrightarrow> Suc 0 < length xs) \<and> (2 < n \<longrightarrow> 2 < length xs)"
  using assms by auto

text \<open>
  The index block of standard streaming loads the registers with the populations of the
  cell.
\<close>

lemma read_block_run:
  fixes args :: kernel_args and mem :: "'a memory"
  assumes env: "stencil_D env = d"
    and index: "min d 3 \<le> length (kernel_index args)"
  shows "run_block env args
           (map fst (filter snd (standard_streaming_read_lines d
              (get_lattice_coordinate env (take (d + 1) [''q_'', ''x_'', ''y_'', ''z_'']))))) mem
         = Some (mem\<lparr>mem_f_reg :=
             fold (\<lambda>i rg. rg(i \<mapsto> mem_f mem (int i # own_cell d args)))
               [0..<kernel_q args] (\<lambda>i. None)\<rparr>)"
proof -
  define n where "n = min d 3"
  let ?v = "\<lambda>k :: nat. [''x_'', ''y_'', ''z_''] ! k"
  let ?P = "\<lambda>m :: 'a memory. mem_f m = mem_f mem"
  let ?upd = "\<lambda>i (m :: 'a memory).
      m\<lparr>mem_f_reg := (mem_f_reg m)(i \<mapsto> mem_f mem (int i # own_cell d args))\<rparr>"
  let ?body = "[Blank, Declare ''q_'' (Variable ''i'')]
       @ map (\<lambda>k. Declare (?v k) (Index k)) [0..<n]
       @ [Blank, Load_register (Variable ''q_'' # map (\<lambda>k. Variable (?v k)) [0..<n])]"
  consider (0) "d = 0" "n = 0" | (1) "d = 1" "n = 1" | (2) "d = 2" "n = 2"
    | (3) "2 < d" "n = 3"
    unfolding n_def by atomize_elim arith
  note cases = this
  have parse: "those (map (statement_of env)
           (map fst (filter snd (standard_streaming_read_lines d
              (get_lattice_coordinate env (take (d + 1) [''q_'', ''x_'', ''y_'', ''z_''])))))) 
      = Some ([Blank, Declare_registers, Blank, Pragma_unroll]
              @ For_each_direction # ?body @ Close_brace # [Blank])"
    using env
    by (cases rule: cases)
       (simp_all add: standard_streaming_read_lines_def statement_of_def trim_def Let_def
          expression_of_def statement_table_def upt_small)
  have split: "loop_body (?body @ Close_brace # [Blank]) 0 = Some (?body, [Blank])"
    by (cases rule: cases) (simp_all add: upt_small)
  have step: "run_iteration args ?body i m = Some (?upd i m)"
    if "i \<in> set [0..<kernel_q args]" "?P m" for i and m :: "'a memory"
    using that long_enough [OF index [folded n_def]]
    by (cases rule: cases)
       (simp_all add: run_iteration_def active_def eval_all_def own_cell_def upt_small
          n_def [symmetric])
  have "for_loop args ?body [0..<kernel_q args] (mem\<lparr>mem_f_reg := (\<lambda>i. None)\<rparr>)
      = Some (fold ?upd [0..<kernel_q args] (mem\<lparr>mem_f_reg := (\<lambda>i. None)\<rparr>))"
    using step by (rule for_loop_fold [where P = ?P]) simp_all
  then have loop: "for_loop args ?body [0..<kernel_q args] (mem\<lparr>mem_f_reg := (\<lambda>i. None)\<rparr>)
      = Some (mem\<lparr>mem_f_reg :=
             fold (\<lambda>i rg. rg(i \<mapsto> mem_f mem (int i # own_cell d args)))
               [0..<kernel_q args] (\<lambda>i. None)\<rparr>)"
    by (simp only: fold_load) simp
  show ?thesis
    by (rule run_block_shape [OF parse _ split _ loop]) simp_all
qed

text \<open>
  The write block of standard streaming stores the register of every direction: at the
  cell itself when the mask is supported and set at the cell, at the neighbour otherwise.
\<close>

lemma write_block_run:
  fixes args :: kernel_args and mem :: "'a memory"
  assumes env: "stencil_D env = d"
    and index: "min d 3 \<le> length (kernel_index args)"
    and dimension: "min d 3 \<le> length (kernel_dimension args)"
    and e: "kernel_q args \<le> length (kernel_e args)"
       "list_all (\<lambda>v. min d 3 \<le> length v) (kernel_e args)"
    and regs: "\<forall>i<kernel_q args. mem_f_reg mem i = Some (r i)"
  shows "run_block env args
           (map fst (filter snd (standard_streaming_write_lines support d
              (get_lattice_coordinate env (take (d + 1) [''q_'', ''x_'', ''y_'', ''z_'']))
              (get_lattice_coordinate env (take d [''index[0]'', ''index[1]'', ''index[2]'']))))) 
           mem
         = Some (mem\<lparr>mem_f_next :=
             fold (\<lambda>i fn. fn((int i # (if support \<and> kernel_no_stream_mask args (own_cell d args)
                                         then own_cell d args else neighbour d args i)) := r i))
               [0..<kernel_q args] (mem_f_next mem)\<rparr>)"
proof -
  define n where "n = min d 3"
  let ?v = "\<lambda>k :: nat. [''x_'', ''y_'', ''z_''] ! k"
  let ?P = "\<lambda>m :: 'a memory. \<forall>i<kernel_q args. mem_f_reg m i = Some (r i)"
  let ?a = "\<lambda>i. int i # (if support \<and> kernel_no_stream_mask args (own_cell d args)
                            then own_cell d args else neighbour d args i)"
  let ?upd = "\<lambda>i (m :: 'a memory). m\<lparr>mem_f_next := (mem_f_next m)(?a i := r i)\<rparr>"
  let ?cell = "Variable ''q_'' # map (\<lambda>k. Variable (?v k)) [0..<n]"
  let ?stream = "concat (map (\<lambda>k. [Declare (?v k) (Index_plus_e k), If_negative_add (?v k) k,
                                     Else_if_at_least_subtract (?v k) k, Blank]) [0..<n])
       @ [Store_f_next ?cell, Blank]"
  let ?body = "[Blank, Declare ''q_'' (Variable ''i'')]
       @ (if support
          then [Blank, If_no_stream_mask (map Index [0..<n]), Blank]
               @ map (\<lambda>k. Declare (?v k) (Index k)) [0..<n]
               @ [Blank, Store_f_next ?cell, Blank, Else_branch]
          else [])
       @ Blank # ?stream @ (if support then [Close_brace] else [])"
  consider (0) "d = 0" "n = 0" | (1) "d = 1" "n = 1" | (2) "d = 2" "n = 2"
    | (3) "2 < d" "n = 3"
    unfolding n_def by atomize_elim arith
  note cases = this
  have parse: "those (map (statement_of env)
           (map fst (filter snd (standard_streaming_write_lines support d
              (get_lattice_coordinate env (take (d + 1) [''q_'', ''x_'', ''y_'', ''z_'']))
              (get_lattice_coordinate env
                 (take d [''index[0]'', ''index[1]'', ''index[2]'']))))))
      = Some ([Blank, Pragma_unroll] @ For_each_direction # ?body @ Close_brace # [Blank])"
    using env
    by (cases rule: cases)
       (simp_all add: standard_streaming_write_lines_def statement_of_def trim_def Let_def
          expression_of_def statement_table_def upt_small)
  have split: "loop_body (?body @ Close_brace # [Blank]) 0 = Some (?body, [Blank])"
    by (cases rule: cases) (simp_all add: upt_small)
  have step: "run_iteration args ?body i m = Some (?upd i m)"
    if "i \<in> set [0..<kernel_q args]" "?P m" for i and m :: "'a memory"
  proof -
    from that have i: "i < kernel_q args" and reg: "mem_f_reg m i = Some (r i)"
      by simp_all
    from i e(1) have ei: "i < length (kernel_e args)"
      by simp
    with e(2) have "n \<le> length (kernel_e args ! i)"
      by (simp add: list_all_length n_def)
    note lengths = long_enough [OF index [folded n_def]] long_enough [OF dimension [folded n_def]]
      long_enough [OF this]
    show ?thesis
      using lengths ei reg
      by (cases rule: cases; cases "kernel_no_stream_mask args (own_cell d args)")
         (simp_all add: run_iteration_def active_def eval_all_def own_cell_def neighbour_def
            periodic_wraparound_def upt_small n_def [symmetric])
  qed
  have "for_loop args ?body [0..<kernel_q args] mem = Some (fold ?upd [0..<kernel_q args] mem)"
    using step by (rule for_loop_fold [where P = ?P]) (simp_all add: regs)
  then have loop: "for_loop args ?body [0..<kernel_q args] mem
      = Some (mem\<lparr>mem_f_next := fold (\<lambda>i fn. fn(?a i := r i)) [0..<kernel_q args]
           (mem_f_next mem)\<rparr>)"
    by (simp only: fold_store)
  show ?thesis
    by (rule run_block_shape [OF parse _ split _ loop]) simp_all
qed

text \<open>
  The kernel of one cell, on the blocks that standard streaming alone has emitted: the
  populations of the cell are loaded and stored, at the cell itself when the mask is
  supported and set at the cell, at the neighbours otherwise.
\<close>

lemma run_cell_standard:
  fixes args :: kernel_args and mem :: "'a memory"
  assumes run: "NativeStandardStreaming_generate_read_write support env g = Inr g'"
    and fresh: "\<not> registered g ''read_write()''" "index_buffer g = []" "write_buffer g = []"
    and index: "min (stencil_D env) 3 \<le> length cell"
    and dimension: "min (stencil_D env) 3 \<le> length (kernel_dimension args)"
    and e: "kernel_q args \<le> length (kernel_e args)"
       "list_all (\<lambda>v. min (stencil_D env) 3 \<le> length v) (kernel_e args)"
  shows "run_cell env args g' cell mem
     = Some (mem\<lparr>
         mem_f_reg :=
           fold (\<lambda>i rg. rg(i \<mapsto> mem_f mem
                   (int i # own_cell (stencil_D env) (args\<lparr>kernel_index := cell\<rparr>))))
             [0..<kernel_q args] (\<lambda>i. None),
         mem_f_next :=
           fold (\<lambda>i fn. fn((int i #
                   (if support \<and> kernel_no_stream_mask args
                         (own_cell (stencil_D env) (args\<lparr>kernel_index := cell\<rparr>))
                    then own_cell (stencil_D env) (args\<lparr>kernel_index := cell\<rparr>)
                    else neighbour (stencil_D env) (args\<lparr>kernel_index := cell\<rparr>) i))
                 := mem_f mem
                      (int i # own_cell (stencil_D env) (args\<lparr>kernel_index := cell\<rparr>))))
             [0..<kernel_q args] (mem_f_next mem)\<rparr>)"
proof -
  let ?args = "args\<lparr>kernel_index := cell\<rparr>"
  let ?own = "own_cell (stencil_D env) ?args"
  let ?regs = "fold (\<lambda>i rg. rg(i \<mapsto> mem_f mem (int i # ?own))) [0..<kernel_q args] (\<lambda>i. None)"
  note buffers = NativeStandardStreaming_buffers [OF run fresh(1), unfolded fresh(2,3) append_Nil]
  have read: "run_block env ?args (index_buffer g') mem = Some (mem\<lparr>mem_f_reg := ?regs\<rparr>)"
    unfolding buffers(1)
    using read_block_run [where env = env and d = "stencil_D env" and args = ?args and mem = mem]
      index
    by simp
  have loaded: "\<forall>i<kernel_q ?args.
      mem_f_reg (mem\<lparr>mem_f_reg := ?regs\<rparr>) i = Some (mem_f mem (int i # ?own))"
    by (simp add: loads_apply)
  have "run_block env ?args (write_buffer g') (mem\<lparr>mem_f_reg := ?regs\<rparr>)
     = Some (mem\<lparr>mem_f_reg := ?regs\<rparr>\<lparr>mem_f_next :=
         fold (\<lambda>i fn. fn((int i # (if support \<and> kernel_no_stream_mask ?args ?own
                                    then ?own else neighbour (stencil_D env) ?args i))
                 := mem_f mem (int i # ?own)))
           [0..<kernel_q ?args] (mem_f_next (mem\<lparr>mem_f_reg := ?regs\<rparr>))\<rparr>)"
    unfolding buffers(2)
    by (rule write_block_run [OF refl _ _ _ _ loaded]) (simp_all add: index dimension e)
  with read show ?thesis
    by (simp add: run_cell_def)
qed

subsection \<open>The wraparound\<close>

lemma periodic_wraparound_mod:
  assumes "0 \<le> x" "x < n" "\<bar>c\<bar> \<le> 1"
  shows "periodic_wraparound (x + c) n = (x + c) mod n"
proof -
  consider "c = -1" | "c = 0" | "c = 1"
    using assms(3) by arith
  then show ?thesis
  proof cases
    case 1
    show ?thesis
    proof (cases "x = 0")
      case True
      with assms 1 show ?thesis
        by (simp add: periodic_wraparound_def zmod_minus1)
    next
      case False
      with assms 1 show ?thesis
        by (simp add: periodic_wraparound_def)
    qed
  next
    case 2
    with assms show ?thesis
      by (simp add: periodic_wraparound_def)
  next
    case 3
    show ?thesis
    proof (cases "x + 1 = n")
      case True
      with assms 3 show ?thesis
        by (simp add: periodic_wraparound_def)
    next
      case False
      with assms 3 show ?thesis
        by (simp add: periodic_wraparound_def)
    qed
  qed
qed

text \<open>
  C2. Periodic wraparound of standard streaming. Take the write block that
  \<open>generate_read_write\<close> of standard streaming emits into an empty write buffer, and run
  it for a cell at which the mask, if supported, is not set, with the registers holding
  one value per direction. The block runs to its end, and the register of every direction
  \<open>i\<close> is then in \<open>f_next\<close> at direction \<open>i\<close> of the neighbour: the cell whose coordinate
  on every axis is the cell's coordinate plus the component of \<open>e[i]\<close> on that axis, plus
  the extent of that axis when the sum is negative, else minus it when the sum has
  reached it. Nothing else of \<open>f_next\<close> changes. For a cell inside the grid and a
  component of size at most one the coordinate is the sum modulo the extent. On a D2Q9
  grid of extent \<open>(Nx, Ny)\<close>, direction 1, which is \<open>(1, 0)\<close>, at the cell \<open>(Nx - 1, y)\<close>
  stores to \<open>(0, y)\<close>, and direction 7, which is \<open>(-1, -1)\<close>, at the cell \<open>(0, 0)\<close> stores
  to \<open>(Nx - 1, Ny - 1)\<close>.
\<close>

theorem standard_streaming_periodic_wraparound:
  fixes args :: kernel_args and mem :: "'a memory"
  assumes "NativeStandardStreaming_generate_read_write support env g = Inr g'"
    and "\<not> registered g ''read_write()''"
    and "write_buffer g = []"
    and "min (stencil_D env) 3 \<le> length (kernel_index args)"
    and "min (stencil_D env) 3 \<le> length (kernel_dimension args)"
    and "kernel_q args \<le> length (kernel_e args)"
    and "list_all (\<lambda>v. min (stencil_D env) 3 \<le> length v) (kernel_e args)"
    and "\<forall>i<kernel_q args. mem_f_reg mem i = Some (r i)"
    and "\<not> (support \<and> kernel_no_stream_mask args (own_cell (stencil_D env) args))"
  shows "\<exists>mem'. run_block env args (write_buffer g') mem = Some mem'
      \<and> (\<forall>i<kernel_q args.
            mem_f_next mem' (int i # neighbour (stencil_D env) args i) = r i)
      \<and> (\<forall>a. (\<forall>i<kernel_q args. a \<noteq> int i # neighbour (stencil_D env) args i) \<longrightarrow>
              mem_f_next mem' a = mem_f_next mem a)
      \<and> mem_f mem' = mem_f mem
      \<and> (\<forall>i<kernel_q args. \<forall>k<min (stencil_D env) 3.
            0 \<le> kernel_index args ! k \<and> kernel_index args ! k < kernel_dimension args ! k
            \<and> \<bar>kernel_e args ! i ! k\<bar> \<le> 1 \<longrightarrow>
            neighbour (stencil_D env) args i ! k
              = (kernel_index args ! k + kernel_e args ! i ! k) mod kernel_dimension args ! k)
      \<and> (stencil_D env = 2 \<and> kernel_q args = 9 \<and> kernel_e args = D2Q9_e
           \<and> kernel_dimension args = [Nx, Ny] \<and> kernel_index args = [Nx - 1, y]
           \<and> 0 < Nx \<and> 0 \<le> y \<and> y < Ny \<longrightarrow>
           mem_f_next mem' [1, 0, y] = r 1)
      \<and> (stencil_D env = 2 \<and> kernel_q args = 9 \<and> kernel_e args = D2Q9_e
           \<and> kernel_dimension args = [Nx, Ny] \<and> kernel_index args = [0, 0] \<longrightarrow>
           mem_f_next mem' [7, Nx - 1, Ny - 1] = r 7)"
proof -
  let ?d = "stencil_D env"
  let ?mem' = "mem\<lparr>mem_f_next :=
      fold (\<lambda>i fn. fn((int i # neighbour ?d args i) := r i)) [0..<kernel_q args]
        (mem_f_next mem)\<rparr>"
  note buffers = NativeStandardStreaming_buffers [OF assms(1,2), unfolded assms(3) append_Nil]
  have run: "run_block env args (write_buffer g') mem = Some ?mem'"
    unfolding buffers(2)
    using write_block_run [OF refl assms(4-8), where support = support] assms(9)
    by simp
  have stored: "mem_f_next ?mem' (int i # neighbour ?d args i) = r i"
    if "i < kernel_q args" for i
    using that by (auto simp: stores_apply)
  have others: "mem_f_next ?mem' a = mem_f_next mem a"
    if "\<forall>i<kernel_q args. a \<noteq> int i # neighbour ?d args i" for a
    using that by (auto simp: stores_apply)
  have modulo: "neighbour ?d args i ! k
      = (kernel_index args ! k + kernel_e args ! i ! k) mod kernel_dimension args ! k"
    if "k < min ?d 3" "0 \<le> kernel_index args ! k"
      "kernel_index args ! k < kernel_dimension args ! k" "\<bar>kernel_e args ! i ! k\<bar> \<le> 1"
    for i k
    using that by (simp add: neighbour_def periodic_wraparound_mod)
  have right: "mem_f_next ?mem' [1, 0, y] = r 1"
    if "?d = 2" "kernel_q args = 9" "kernel_e args = D2Q9_e"
      "kernel_dimension args = [Nx, Ny]" "kernel_index args = [Nx - 1, y]"
      "0 < Nx" "0 \<le> y" "y < Ny"
  proof -
    from that have "neighbour ?d args 1 = [0, y]"
      by (simp add: neighbour_def D2Q9_e_def periodic_wraparound_def upt_small)
    with stored [of 1] that(2) show ?thesis
      by simp
  qed
  have corner: "mem_f_next ?mem' [7, Nx - 1, Ny - 1] = r 7"
    if "?d = 2" "kernel_q args = 9" "kernel_e args = D2Q9_e"
      "kernel_dimension args = [Nx, Ny]" "kernel_index args = [0, 0]"
  proof -
    from that have "neighbour ?d args 7 = [Nx - 1, Ny - 1]"
      by (simp add: neighbour_def D2Q9_e_def periodic_wraparound_def upt_small)
    with stored [of 7] that(2) show ?thesis
      by simp
  qed
  have "run_block env args (write_buffer g') mem = Some ?mem'
      \<and> (\<forall>i<kernel_q args. mem_f_next ?mem' (int i # neighbour ?d args i) = r i)
      \<and> (\<forall>a. (\<forall>i<kernel_q args. a \<noteq> int i # neighbour ?d args i) \<longrightarrow>
              mem_f_next ?mem' a = mem_f_next mem a)
      \<and> mem_f ?mem' = mem_f mem
      \<and> (\<forall>i<kernel_q args. \<forall>k<min ?d 3.
            0 \<le> kernel_index args ! k \<and> kernel_index args ! k < kernel_dimension args ! k
            \<and> \<bar>kernel_e args ! i ! k\<bar> \<le> 1 \<longrightarrow>
            neighbour ?d args i ! k
              = (kernel_index args ! k + kernel_e args ! i ! k) mod kernel_dimension args ! k)
      \<and> (?d = 2 \<and> kernel_q args = 9 \<and> kernel_e args = D2Q9_e
           \<and> kernel_dimension args = [Nx, Ny] \<and> kernel_index args = [Nx - 1, y]
           \<and> 0 < Nx \<and> 0 \<le> y \<and> y < Ny \<longrightarrow>
           mem_f_next ?mem' [1, 0, y] = r 1)
      \<and> (?d = 2 \<and> kernel_q args = 9 \<and> kernel_e args = D2Q9_e
           \<and> kernel_dimension args = [Nx, Ny] \<and> kernel_index args = [0, 0] \<longrightarrow>
           mem_f_next ?mem' [7, Nx - 1, Ny - 1] = r 7)"
    using run stored others modulo right corner
    by (intro conjI allI impI) (simp_all del: fold_simps)
  then show ?thesis
    by (rule exI)
qed

theorem standard_streaming_periodic_wraparound_witness:
  "\<exists>g' mem'.
     NativeStandardStreaming_generate_read_write True example_env empty_generator = Inr g'
     \<and> \<not> registered empty_generator ''read_write()''
     \<and> write_buffer empty_generator = []
     \<and> list_all (\<lambda>v. min (stencil_D example_env) 3 \<le> length v) (kernel_e example_kernel_args)
     \<and> \<not> kernel_no_stream_mask example_kernel_args
           (own_cell (stencil_D example_env) example_kernel_args)
     \<and> run_block example_env example_kernel_args (write_buffer g')
           (example_memory\<lparr>mem_f_reg := (\<lambda>i. Some (int i))\<rparr>) = Some mem'
     \<and> mem_f_next mem' [1, 0, 1] = 1
     \<and> mem_f_next mem' [7, 3, 0] = 7"
proof -
  obtain g' where
    gen: "NativeStandardStreaming_generate_read_write True example_env empty_generator = Inr g'"
    using NativeStandardStreaming_generate_read_write_result by blast
  have fresh: "\<not> registered empty_generator ''read_write()''"
    and empty: "write_buffer empty_generator = []"
    by (simp_all add: registered_def empty_generator_def)
  have index: "min (stencil_D example_env) 3 \<le> length (kernel_index example_kernel_args)"
    and dimension: "min (stencil_D example_env) 3 \<le> length (kernel_dimension example_kernel_args)"
    and q: "kernel_q example_kernel_args \<le> length (kernel_e example_kernel_args)"
    and e: "list_all (\<lambda>v. min (stencil_D example_env) 3 \<le> length v)
              (kernel_e example_kernel_args)"
    by (simp_all add: example_env_def example_kernel_args_def D2Q9_e_def)
  have regs: "\<forall>i<kernel_q example_kernel_args.
      mem_f_reg (example_memory\<lparr>mem_f_reg := (\<lambda>i. Some (int i))\<rparr>) i = Some (int i)"
    by simp
  have unmasked: "\<not> kernel_no_stream_mask example_kernel_args
      (own_cell (stencil_D example_env) example_kernel_args)"
    by (simp add: example_env_def example_kernel_args_def own_cell_def upt_small)
  then have unmasked': "\<not> (True \<and> kernel_no_stream_mask example_kernel_args
      (own_cell (stencil_D example_env) example_kernel_args))"
    by simp
  from standard_streaming_periodic_wraparound
    [OF gen fresh empty index dimension q e regs unmasked', where Nx = 5 and Ny = 3 and y = 1]
  obtain mem' where
    run: "run_block example_env example_kernel_args (write_buffer g')
           (example_memory\<lparr>mem_f_reg := (\<lambda>i. Some (int i))\<rparr>) = Some mem'"
    and stored: "\<forall>i<kernel_q example_kernel_args.
            mem_f_next mem' (int i #
              neighbour (stencil_D example_env) example_kernel_args i) = int i"
    by blast
  have "neighbour (stencil_D example_env) example_kernel_args 1 = [0, 1]"
    and "neighbour (stencil_D example_env) example_kernel_args 7 = [3, 0]"
    by (simp_all add: neighbour_def example_env_def example_kernel_args_def D2Q9_e_def
          periodic_wraparound_def upt_small)
  with stored have "mem_f_next mem' [1, 0, 1] = 1" "mem_f_next mem' [7, 3, 0] = 7"
    by (auto simp: example_kernel_args_def dest: spec [of _ 1] spec [of _ 7])
  with gen fresh empty e unmasked run show ?thesis
    by blast
qed

text \<open>
  C3. The mask of standard streaming. With the mask supported and set at a cell, the
  kernel of that cell, on the blocks that \<open>generate_read_write\<close> of standard streaming
  emits into empty buffers, runs to its end and stores the populations of the cell in
  \<open>f_next\<close> at the cell itself, every direction, and changes nothing else of \<open>f_next\<close>.
  That does not make \<open>f_next\<close> equal to \<open>f\<close> at the cell after the time step: the mask is
  read at the cell that writes, so the kernel of an unmasked neighbour stores into the
  masked cell as well. On the D2Q9 grid of extent \<open>(5, 3)\<close> with the mask set at \<open>(0, 0)\<close>
  alone, the kernel of \<open>(4, 0)\<close> stores its direction 1 at \<open>(0, 0)\<close>: run after the kernel
  of \<open>(0, 0)\<close> it leaves the population of \<open>(4, 0)\<close> there, run before it the population
  of \<open>(0, 0)\<close> is left, so the outcome depends on the order of the cells.
\<close>

theorem no_stream_mask_cell_overwritten:
  "(NativeStandardStreaming_generate_read_write True env g = Inr g'
      \<and> \<not> registered g ''read_write()'' \<and> index_buffer g = [] \<and> write_buffer g = []
      \<and> min (stencil_D env) 3 \<le> length cell
      \<and> min (stencil_D env) 3 \<le> length (kernel_dimension args)
      \<and> kernel_q args \<le> length (kernel_e args)
      \<and> list_all (\<lambda>v. min (stencil_D env) 3 \<le> length v) (kernel_e args)
      \<and> kernel_no_stream_mask args (own_cell (stencil_D env) (args\<lparr>kernel_index := cell\<rparr>))
    \<longrightarrow>
      (\<exists>mem'. run_cell env args g' cell (mem :: 'a memory) = Some mem'
         \<and> (\<forall>i<kernel_q args.
               mem_f_next mem'
                 (int i # own_cell (stencil_D env) (args\<lparr>kernel_index := cell\<rparr>))
               = mem_f mem (int i # own_cell (stencil_D env) (args\<lparr>kernel_index := cell\<rparr>)))
         \<and> (\<forall>a. (\<forall>i<kernel_q args.
                     a \<noteq> int i # own_cell (stencil_D env) (args\<lparr>kernel_index := cell\<rparr>)) \<longrightarrow>
                 mem_f_next mem' a = mem_f_next mem a)
         \<and> mem_f mem' = mem_f mem))
   \<and> (\<exists>g1 m1 m2.
         NativeStandardStreaming_generate_read_write True example_env empty_generator = Inr g1
         \<and> kernel_no_stream_mask example_kernel_args [0, 0]
         \<and> run_cells example_env example_kernel_args g1 [[0, 0], [4, 0]] example_memory = Some m1
         \<and> run_cells example_env example_kernel_args g1 [[4, 0], [0, 0]] example_memory = Some m2
         \<and> mem_f example_memory [1, 0, 0] = 0
         \<and> mem_f_next m1 [1, 0, 0] = 4
         \<and> mem_f_next m2 [1, 0, 0] = 0)"
proof -
  have own: "\<exists>mem'. run_cell env args g' cell mem = Some mem'
         \<and> (\<forall>i<kernel_q args.
               mem_f_next mem'
                 (int i # own_cell (stencil_D env) (args\<lparr>kernel_index := cell\<rparr>))
               = mem_f mem (int i # own_cell (stencil_D env) (args\<lparr>kernel_index := cell\<rparr>)))
         \<and> (\<forall>a. (\<forall>i<kernel_q args.
                     a \<noteq> int i # own_cell (stencil_D env) (args\<lparr>kernel_index := cell\<rparr>)) \<longrightarrow>
                 mem_f_next mem' a = mem_f_next mem a)
         \<and> mem_f mem' = mem_f mem"
    if run: "NativeStandardStreaming_generate_read_write True env g = Inr g'"
      and fresh: "\<not> registered g ''read_write()''" "index_buffer g = []" "write_buffer g = []"
      and wf: "min (stencil_D env) 3 \<le> length cell"
        "min (stencil_D env) 3 \<le> length (kernel_dimension args)"
        "kernel_q args \<le> length (kernel_e args)"
        "list_all (\<lambda>v. min (stencil_D env) 3 \<le> length v) (kernel_e args)"
      and masked: "kernel_no_stream_mask args
        (own_cell (stencil_D env) (args\<lparr>kernel_index := cell\<rparr>))"
  proof -
    note cell = run_cell_standard [OF run fresh wf, where mem = mem]
    show ?thesis
      unfolding cell using masked by (auto simp: stores_apply)
  qed
  have example: "\<exists>g1 m1 m2.
         NativeStandardStreaming_generate_read_write True example_env empty_generator = Inr g1
         \<and> kernel_no_stream_mask example_kernel_args [0, 0]
         \<and> run_cells example_env example_kernel_args g1 [[0, 0], [4, 0]] example_memory = Some m1
         \<and> run_cells example_env example_kernel_args g1 [[4, 0], [0, 0]] example_memory = Some m2
         \<and> mem_f example_memory [1, 0, 0] = 0
         \<and> mem_f_next m1 [1, 0, 0] = 4
         \<and> mem_f_next m2 [1, 0, 0] = 0"
  proof -
    obtain g1 where gen:
      "NativeStandardStreaming_generate_read_write True example_env empty_generator = Inr g1"
      using NativeStandardStreaming_generate_read_write_result by blast
    have fresh: "\<not> registered empty_generator ''read_write()''"
      "index_buffer empty_generator = []" "write_buffer empty_generator = []"
      by (simp_all add: registered_def empty_generator_def)
    have wf: "min (stencil_D example_env) 3 \<le> length [a, b]"
      "min (stencil_D example_env) 3 \<le> length (kernel_dimension example_kernel_args)"
      "kernel_q example_kernel_args \<le> length (kernel_e example_kernel_args)"
      "list_all (\<lambda>v. min (stencil_D example_env) 3 \<le> length v) (kernel_e example_kernel_args)"
      for a b :: int
      by (simp_all add: example_env_def example_kernel_args_def D2Q9_e_def)
    note cell = run_cell_standard [OF gen fresh wf, where ?'a = int]
    have d: "stencil_D example_env = 2"
      by (simp add: example_env_def)
    have own: "own_cell 2 (example_kernel_args\<lparr>kernel_index := [a, b]\<rparr>) = [a, b]" for a b
      by (simp add: own_cell_def upt_small)
    have across: "neighbour 2 (example_kernel_args\<lparr>kernel_index := [4, 0]\<rparr>) (Suc 0) = [0, 0]"
      by (simp add: neighbour_def example_kernel_args_def D2Q9_e_def periodic_wraparound_def
            upt_small)
    have mask: "kernel_no_stream_mask example_kernel_args [a, b] \<longleftrightarrow> a = 0 \<and> b = 0" for a b
      by (simp add: example_kernel_args_def)
    have q: "kernel_q example_kernel_args = 9"
      by (simp add: example_kernel_args_def)
    have f: "mem_f example_memory [c, a, b] = a" for a b c
      by (simp add: example_memory_def)
    let ?m1 = "the (run_cells example_env example_kernel_args g1 [[0, 0], [4, 0]] example_memory)"
    let ?m2 = "the (run_cells example_env example_kernel_args g1 [[4, 0], [0, 0]] example_memory)"
    have runs:
      "run_cells example_env example_kernel_args g1 [[0, 0], [4, 0]] example_memory = Some ?m1"
      "run_cells example_env example_kernel_args g1 [[4, 0], [0, 0]] example_memory = Some ?m2"
      by (simp_all add: cell)
    have one: "mem_f_next ?m1 [1, 0, 0] = 4"
      by (simp add: cell d own mask q f stores_apply across)
    have two: "mem_f_next ?m2 [1, 0, 0] = 0"
      by (simp add: cell d own mask q f stores_apply)
    from gen runs one two mask [of 0 0] f [of 1 0 0] show ?thesis
      by blast
  qed
  from own example show ?thesis
    by blast
qed

theorem no_stream_mask_cell_overwritten_witness:
  "\<exists>g' mem'.
     NativeStandardStreaming_generate_read_write True example_env empty_generator = Inr g'
     \<and> \<not> registered empty_generator ''read_write()''
     \<and> index_buffer empty_generator = [] \<and> write_buffer empty_generator = []
     \<and> list_all (\<lambda>v. min (stencil_D example_env) 3 \<le> length v) (kernel_e example_kernel_args)
     \<and> kernel_no_stream_mask example_kernel_args
         (own_cell (stencil_D example_env) (example_kernel_args\<lparr>kernel_index := [0, 0]\<rparr>))
     \<and> run_cell example_env example_kernel_args g' [0, 0] example_memory = Some mem'
     \<and> mem_f_next example_memory [3, 0, 0] = - 1
     \<and> mem_f_next mem' [3, 0, 0] = 0"
proof -
  obtain g' where
    gen: "NativeStandardStreaming_generate_read_write True example_env empty_generator = Inr g'"
    using NativeStandardStreaming_generate_read_write_result by blast
  have fresh: "\<not> registered empty_generator ''read_write()''"
    "index_buffer empty_generator = []" "write_buffer empty_generator = []"
    by (simp_all add: registered_def empty_generator_def)
  have wf: "min (stencil_D example_env) 3 \<le> length [0 :: int, 0]"
    "min (stencil_D example_env) 3 \<le> length (kernel_dimension example_kernel_args)"
    "kernel_q example_kernel_args \<le> length (kernel_e example_kernel_args)"
    "list_all (\<lambda>v. min (stencil_D example_env) 3 \<le> length v) (kernel_e example_kernel_args)"
    by (simp_all add: example_env_def example_kernel_args_def D2Q9_e_def)
  have own: "own_cell (stencil_D example_env) (example_kernel_args\<lparr>kernel_index := [0, 0]\<rparr>)
      = [0, 0]"
    by (simp add: own_cell_def example_env_def upt_small)
  have masked: "kernel_no_stream_mask example_kernel_args
      (own_cell (stencil_D example_env) (example_kernel_args\<lparr>kernel_index := [0, 0]\<rparr>))"
    unfolding own by (simp add: example_kernel_args_def)
  note claim = no_stream_mask_cell_overwritten
    [where env = example_env and g = empty_generator and g' = g' and cell = "[0, 0]"
       and args = example_kernel_args and mem = example_memory]
  from claim gen fresh wf masked obtain mem' where
    run: "run_cell example_env example_kernel_args g' [0, 0] example_memory = Some mem'"
    and stored: "\<forall>i<kernel_q example_kernel_args.
       mem_f_next mem' (int i #
         own_cell (stencil_D example_env) (example_kernel_args\<lparr>kernel_index := [0, 0]\<rparr>))
       = mem_f example_memory (int i #
         own_cell (stencil_D example_env) (example_kernel_args\<lparr>kernel_index := [0, 0]\<rparr>))"
    by blast
  from stored have "mem_f_next mem' [3, 0, 0] = 0"
    unfolding own
    by (auto simp: example_kernel_args_def example_memory_def dest: spec [of _ 3])
  moreover have "mem_f_next example_memory [3, 0, 0] = - 1"
    by (simp add: example_memory_def)
  ultimately show ?thesis
    using gen fresh wf(4) masked run by blast
qed

end
